theory Spec2Isabelle
  imports Main
begin

section \<open>The AIX router: \<open>chatGenerateContent\<close>\<close>

text \<open>
  The development embeds the asynchronous generator \<open>chatGenerateContent\<close> of
  \<^verbatim>\<open>src/modules/aix/server/api/aix.router.ts\<close>. The generator is a sequential program
  with effects: it yields events to its caller, calls the network, reads the response,
  and calls into the intake handler, the part transmitter and the provider's parse
  function. The embedding threads one state through the body of the generator; the state
  holds the two flags of the intake handler and the trace of every effect, in the order
  in which the code performs them.
\<close>

subsection \<open>Values the code observes\<close>

text \<open>JSON values: the validated inputs, the body of the outbound request and the
  normalized operations are plain JSON objects.\<close>

datatype json =
    JNull
  | JBool bool
  | JNum int
  | JStr string
  | JArr "json list"
  | JObj "(string \<times> json) list"

type_synonym bytes = "nat list"

text \<open>A thrown value, by what the \<^verbatim>\<open>catch\<close> blocks read from it: \<^verbatim>\<open>error?.name\<close> (empty
  when there is none, as for a nullish error), the result of \<^verbatim>\<open>safeErrorString(error)\<close>
  (\<open>None\<close> for \<^verbatim>\<open>null\<close>), and \<^verbatim>\<open>JSON.stringify(error.cause)\<close> when \<^verbatim>\<open>error?.cause\<close>
  is truthy.\<close>

record thrown =
  error_name :: string
  error_safeErrorString :: "string option"
  error_cause :: "string option"

text \<open>\<^verbatim>\<open>a || b\<close> on a string that may be \<^verbatim>\<open>null\<close>: the empty string and \<^verbatim>\<open>null\<close> are falsy.\<close>

definition js_or :: "string option \<Rightarrow> string \<Rightarrow> string" where
  "js_or a b = (case a of None \<Rightarrow> b | Some s \<Rightarrow> if s = [] then b else s)"

text \<open>A string that may be \<^verbatim>\<open>null\<close>, as \<^verbatim>\<open>+\<close> concatenates it.\<close>

definition js_string :: "string option \<Rightarrow> string" where
  "js_string a = (case a of None \<Rightarrow> ''null'' | Some s \<Rightarrow> s)"

definition js_truthy :: "string option \<Rightarrow> bool" where
  "js_truthy a = (case a of None \<Rightarrow> False | Some s \<Rightarrow> s \<noteq> [])"

record access =
  dialect :: string
  oaiHost :: "string option"

record connectionOptions =
  debugDispatchRequestbody :: "bool option"

record input =
  access :: access
  model :: json
  chatGenerate :: json
  aixContext :: json
  streaming :: bool
  connectionOptions :: "connectionOptions option"

datatype abortSignal = AbortSignal nat

record ctx =
  reqSignal :: abortSignal

record dispatchRequest =
  url :: string
  request_method :: string
  headers :: "(string \<times> string) list"
  body :: json

text \<open>The provider's parse function \<^verbatim>\<open>chatGenerateParse(transmitter, data, name?)\<close>: the
  operations it sends to the part transmitter, in order, and the value it throws, if it
  throws. It keeps no state between its calls (section 4.1 of the specification).\<close>

type_synonym parseFunction = "string \<Rightarrow> string option \<Rightarrow> json list \<times> thrown option"

record dispatch =
  request :: dispatchRequest
  demuxerFormat :: string
  chatGenerateParse :: parseFunction

record fetchParams =
  fetch_url :: string
  fetch_method :: string
  fetch_headers :: "(string \<times> string) list"
  fetch_body :: json
  fetch_signal :: abortSignal
  fetch_name :: string
  fetch_throwWithoutName :: bool

text \<open>One outcome of \<^verbatim>\<open>dispatchReader.read()\<close>: a chunk, \<^verbatim>\<open>done\<close>, or a rejection. The
  body is read under the caller's cancellation signal, the one handed to the outbound
  call (line 70). \<open>ReadCancelled\<close> is the rejection of a read because that signal fired
  before or during the read; the value thrown is the reason the platform aborted the
  signal with, whatever its name. \<open>ReadThrows\<close> is every other rejection.\<close>

datatype readResult =
    ReadValue bytes
  | ReadDone
  | ReadThrows thrown
  | ReadCancelled thrown

text \<open>The response of the outbound call: what \<^verbatim>\<open>text()\<close> resolves or rejects with, and
  the nullable \<^verbatim>\<open>body\<close> stream, given by the outcomes of its successive reads. The
  embedding covers the streams that end: the list is finite, and a read past its end
  reports \<^verbatim>\<open>done\<close>, as a closed stream does.\<close>

record response =
  response_text :: "thrown + string"
  response_body :: "readResult list option"

record demuxedItem =
  item_type :: string
  item_data :: string
  item_name :: "string option"

subsection \<open>Events and effects\<close>

datatype terminationCause = dispatch_close | event_done | client_abort

datatype errorStage = dispatch_prepare | dispatch_fetch | dispatch_read | dispatch_parse

text \<open>What the generator hands to its caller. \<open>Issue\<close> is the error event, with its stage,
  its message and the flag that shows it on the shared log; \<open>DebugClientPrint\<close> is the
  object \<^verbatim>\<open>{ _debugClientPrint: ... }\<close>.\<close>

datatype event =
    Start
  | Operation json
  | Termination terminationCause
  | Issue errorStage string bool
  | DebugClientPrint string

text \<open>The argument of \<^verbatim>\<open>onReceivedWireMessage\<close>: the whole body in non-streaming mode, a
  demuxed item in streaming mode.\<close>

datatype wireMessage = WireBody string | WireItem demuxedItem

text \<open>What the generator does, step by step: it yields an event, calls the network,
  reads the whole body or one chunk of it, shows a wire message to the intake handler,
  warns on the console, calls the parse function, which in turn calls the part
  transmitter, and the intake handler writes to the shared log.\<close>

datatype effect =
    Yield event
  | Fetch fetchParams
  | ReadText "thrown + string"
  | Read readResult
  | Received wireMessage
  | Warn demuxedItem
  | ParseCall string "string option"
  | Transmit json
  | SharedLog string

text \<open>The state of one invocation: the two flags of the intake handler (section 3 of the
  specification) and the effects performed so far.\<close>

record run =
  intakeTerminated :: bool
  startEmitted :: bool
  trace :: "effect list"

definition perform :: "effect list \<Rightarrow> run \<Rightarrow> run" where
  "perform es s = s\<lparr>trace := trace s @ es\<rparr>"

subsection \<open>The collaborators\<close>

text \<open>The functions this file imports and the platform it runs on are parameters of the
  embedding. The text decoder and the stream demuxer keep state between calls: each is a
  function from its state and its argument to its result and its next state. Neither
  throws, and \<^verbatim>\<open>JSON.stringify\<close> returns on the body of a request.\<close>

record ('c, 'd) world =
  NODE_ENV :: string
  serverCapitalizeFirstLetter :: "string \<Rightarrow> string"
  createChatGenerateDispatch :: "access \<Rightarrow> json \<Rightarrow> json \<Rightarrow> bool \<Rightarrow> thrown + dispatch"
  JSON_stringify :: "json \<Rightarrow> string"
  fetchResponseOrTRPCThrow :: "fetchParams \<Rightarrow> thrown + response"
  newTextDecoder :: 'c
  decode :: "'c \<Rightarrow> bytes \<Rightarrow> string \<times> 'c"
  createStreamDemuxer :: "string \<Rightarrow> 'd"
  demux :: "'d \<Rightarrow> string \<Rightarrow> demuxedItem list \<times> 'd"

text \<open>The class \<open>IntakeHandler\<close> (\<^verbatim>\<open>./IntakeHandler\<close>) is not among the sources. Its five
  methods follow section 4.4 of the specification; the state they share is the record
  \<open>run\<close>.\<close>

text \<open>Modelled from the spec: \<open>IntakeHandler.yieldStart\<close>, which is not among the sources. It
  emits the start event.\<close>

definition yieldStart :: "run \<Rightarrow> run" where
  "yieldStart s = perform [Yield Start] (s\<lparr>startEmitted := True\<rparr>)"

text \<open>Modelled from the spec: \<open>IntakeHandler.onReceivedWireMessage\<close>, which is not among the
  sources. It is an observability hook: it never throws and never changes the termination
  state.\<close>

definition onReceivedWireMessage :: "wireMessage \<Rightarrow> run \<Rightarrow> run" where
  "onReceivedWireMessage m s = perform [Received m] s"

text \<open>Modelled from the spec: \<open>IntakeHandler.yieldTermination\<close>, which is not among the
  sources. It sets \<open>terminated\<close> and emits exactly one termination event; on an intake
  that has already terminated it does nothing.\<close>

definition yieldTermination :: "terminationCause \<Rightarrow> run \<Rightarrow> run" where
  "yieldTermination cause s =
     (if intakeTerminated s then s
      else perform [Yield (Termination cause)] (s\<lparr>intakeTerminated := True\<rparr>))"

text \<open>Modelled from the spec: \<open>IntakeHandler.yieldError\<close>, which is not among the sources. It
  sets \<open>terminated\<close> and emits exactly one error event with its stage and message; it
  mirrors the message to the operational log when its flag is set; on an intake that has
  already terminated it does nothing. The flag is false when the caller leaves it out:
  errors of the prepare and read stages are never mirrored (section 7).\<close>

definition yieldError :: "errorStage \<Rightarrow> string \<Rightarrow> bool \<Rightarrow> run \<Rightarrow> run" where
  "yieldError stage message showOnConsole s =
     (if intakeTerminated s then s
      else perform (Yield (Issue stage message showOnConsole) #
                    (if showOnConsole then [SharedLog message] else []))
             (s\<lparr>intakeTerminated := True\<rparr>))"

text \<open>Modelled from the spec: \<open>IntakeHandler.markTermination\<close>, which is not among the
  sources. It sets \<open>terminated\<close> and emits nothing.\<close>

definition markTermination :: "run \<Rightarrow> run" where
  "markTermination s = s\<lparr>intakeTerminated := True\<rparr>"

text \<open>Modelled from the spec: the helper \<open>createEmptyReadableStream\<close> (\<^verbatim>\<open>~/server/wire\<close>),
  which is not among the sources. It is the stream with nothing to read: its first read
  reports \<^verbatim>\<open>done\<close>.\<close>

definition createEmptyReadableStream :: "readResult list" where
  "createEmptyReadableStream = []"

text \<open>One call of the parse function with the part transmitter: the call, then each
  operation the function sends to the transmitter before it returns or throws.\<close>

definition callParse :: "parseFunction \<Rightarrow> string \<Rightarrow> string option \<Rightarrow> run \<Rightarrow> run \<times> thrown option" where
  "callParse parse data name s =
     (case parse data name of
        (ops, failure) \<Rightarrow> (perform (ParseCall data name # map Transmit ops) s, failure))"

text \<open>The output sequence of a run is what the generator yields, in order. The part
  transmitter is built at line 43 from the name of the dialect alone and is handed to the
  parse function; the generator yields nothing on its behalf (lines 99 and 165 are notes
  of work to do), so an operation sent to the transmitter is an effect of the run and not
  an event of its output.\<close>

fun outputOf :: "effect \<Rightarrow> event list" where
  "outputOf (Yield e) = [e]"
| "outputOf _ = []"

definition outputSequence :: "effect list \<Rightarrow> event list" where
  "outputSequence es = concat (map outputOf es)"

text \<open>The operations sent to the part transmitter, in order.\<close>

fun transmittedOf :: "effect \<Rightarrow> json list" where
  "transmittedOf (Transmit operation) = [operation]"
| "transmittedOf _ = []"

definition transmitted :: "effect list \<Rightarrow> json list" where
  "transmitted es = concat (map transmittedOf es)"

subsection \<open>The messages\<close>

definition newline :: string where
  "newline = [CHR 0x0A]"

definition middleDot :: string where
  "middleDot = [CHR 0xC2, CHR 0xB7]"

definition prepareMessage :: "string \<Rightarrow> thrown \<Rightarrow> string" where
  "prepareMessage prettyDialect error =
     ''**[Configuration Issue] '' @ prettyDialect @ ''**: '' @
       js_or (error_safeErrorString error) ''Unknown service preparation error''"

definition fetchMessage :: "string \<Rightarrow> string \<Rightarrow> dispatch \<Rightarrow> thrown \<Rightarrow> string" where
  "fetchMessage node_env prettyDialect dispatch error =
     (let dispatchFetchError = js_string (error_safeErrorString error) @
            (case error_cause error of None \<Rightarrow> [] | Some c \<Rightarrow> '' '' @ middleDot @ '' '' @ c);
          extraDevMessage = (if node_env = ''development''
            then newline @ ''[DEV_URL: '' @ url (request dispatch) @ '']'' else [])
      in ''**[Service Issue] '' @ prettyDialect @ ''**: '' @ dispatchFetchError @ extraDevMessage)"

definition readingMessage :: "string \<Rightarrow> thrown \<Rightarrow> string" where
  "readingMessage prettyDialect error =
     ''**[Reading Issue] '' @ prettyDialect @ ''**: '' @
       js_or (error_safeErrorString error) ''Unknown stream reading error''"

definition parsingMessage :: "string \<Rightarrow> thrown \<Rightarrow> string \<Rightarrow> string" where
  "parsingMessage prettyDialect error dispatchBody =
     '' **[Parsing Issue] '' @ prettyDialect @ ''**: '' @
       js_or (error_safeErrorString error) ''Unknown stream parsing error'' @ ''.'' @ newline @
       ''Input data: '' @ dispatchBody @ ''.'' @ newline @ ''Please open a support ticket.''"

definition streamingMessage :: "string \<Rightarrow> thrown \<Rightarrow> string" where
  "streamingMessage prettyDialect error =
     ''**[Streaming Issue] '' @ prettyDialect @ ''**: '' @
       js_or (error_safeErrorString error) ''Unknown stream reading error''"

definition serviceParsingMessage :: "string \<Rightarrow> thrown \<Rightarrow> string \<Rightarrow> string" where
  "serviceParsingMessage prettyDialect error data =
     '' **[Service Parsing Issue] '' @ prettyDialect @ ''**: '' @
       js_or (error_safeErrorString error) ''Unknown stream parsing error'' @ ''.'' @ newline @
       ''Input data: '' @ data @ ''.'' @ newline @ ''Please open a support ticket.''"

subsection \<open>The generator\<close>

text \<open>The loop over the items demuxed from one chunk (lines 143 to 171).\<close>

fun forDemuxedItems :: "parseFunction \<Rightarrow> string \<Rightarrow> demuxedItem list \<Rightarrow> run \<Rightarrow> run" where
  "forDemuxedItems dispatchParser prettyDialect [] s = s"
| "forDemuxedItems dispatchParser prettyDialect (demuxedItem # items) s =
     (let s1 = onReceivedWireMessage (WireItem demuxedItem) s in
      if intakeTerminated s1 then perform [Warn demuxedItem] s1
      else if item_type demuxedItem \<noteq> ''event''
        then forDemuxedItems dispatchParser prettyDialect items s1
      else if item_data demuxedItem = ''[DONE]'' then yieldTermination event_done s1
      else (case callParse dispatchParser (item_data demuxedItem) (item_name demuxedItem) s1 of
              (s2, None) \<Rightarrow> forDemuxedItems dispatchParser prettyDialect items s2
            | (s2, Some error) \<Rightarrow>
                yieldError dispatch_parse
                  (serviceParsingMessage prettyDialect error (item_data demuxedItem)) True s2))"

text \<open>The data pump (lines 114 to 173): a \<^verbatim>\<open>do ... while (!intakeTerminated)\<close> over the
  reads of the response body. The body of the loop runs before the first test. A rejected
  read reaches the one \<^verbatim>\<open>catch\<close> block (lines 129 to 139), whether the caller's signal
  rejected it or not: the block only looks at the name of what was thrown.\<close>

fun pump :: "('c, 'd) world \<Rightarrow> parseFunction \<Rightarrow> string \<Rightarrow> readResult list \<Rightarrow> 'c \<Rightarrow> 'd \<Rightarrow> run \<Rightarrow> run" where
  "pump w dispatchParser prettyDialect [] dispatchDecoder dispatchDemuxer s =
     yieldTermination dispatch_close (perform [Read ReadDone] s)"
| "pump w dispatchParser prettyDialect (r # reads) dispatchDecoder dispatchDemuxer s =
     (let s0 = perform [Read r] s in
      case r of
        ReadDone \<Rightarrow> yieldTermination dispatch_close s0
      | ReadThrows error \<Rightarrow>
          if error_name error = ''ResponseAborted'' then markTermination s0
          else yieldError dispatch_read (streamingMessage prettyDialect error) False s0
      | ReadCancelled error \<Rightarrow>
          if error_name error = ''ResponseAborted'' then markTermination s0
          else yieldError dispatch_read (streamingMessage prettyDialect error) False s0
      | ReadValue v \<Rightarrow>
          (case decode w dispatchDecoder v of (dispatchChunk, decoder') \<Rightarrow>
           case demux w dispatchDemuxer dispatchChunk of (items, demuxer') \<Rightarrow>
             let s1 = forDemuxedItems dispatchParser prettyDialect items s0 in
             if intakeTerminated s1 then s1
             else pump w dispatchParser prettyDialect reads decoder' demuxer' s1))"

text \<open>The non-streaming branch (lines 88 to 104).\<close>

definition nonStreaming :: "dispatch \<Rightarrow> string \<Rightarrow> response \<Rightarrow> run \<Rightarrow> run" where
  "nonStreaming dispatch prettyDialect dispatchResponse s =
     (let s0 = perform [ReadText (response_text dispatchResponse)] s in
      case response_text dispatchResponse of
        Inl error \<Rightarrow> yieldError dispatch_read (readingMessage prettyDialect error) False s0
      | Inr dispatchBody \<Rightarrow>
          (case callParse (chatGenerateParse dispatch) dispatchBody None
                  (onReceivedWireMessage (WireBody dispatchBody) s0) of
             (s2, None) \<Rightarrow> s2
           | (s2, Some error) \<Rightarrow>
               yieldError dispatch_parse (parsingMessage prettyDialect error dispatchBody) True s2))"

definition debugRequested :: "input \<Rightarrow> bool" where
  "debugRequested inp =
     (case connectionOptions inp of
        None \<Rightarrow> False
      | Some opts \<Rightarrow> debugDispatchRequestbody opts = Some True)"

definition showOnConsoleForNonCustomServers :: "access \<Rightarrow> bool" where
  "showOnConsoleForNonCustomServers a = (dialect a \<noteq> ''openai'' \<or> \<not> js_truthy (oaiHost a))"

definition fetchArguments :: "dispatch \<Rightarrow> abortSignal \<Rightarrow> string \<Rightarrow> fetchParams" where
  "fetchArguments dispatch intakeAbortSignal prettyDialect =
     \<lparr>fetch_url = url (request dispatch),
      fetch_method = ''POST'',
      fetch_headers = headers (request dispatch),
      fetch_body = body (request dispatch),
      fetch_signal = intakeAbortSignal,
      fetch_name = ''Aix.'' @ prettyDialect,
      fetch_throwWithoutName = True\<rparr>"

definition newRun :: run where
  "newRun = \<lparr>intakeTerminated = False, startEmitted = False, trace = []\<rparr>"

definition chatGenerateContent :: "('c, 'd) world \<Rightarrow> ctx \<Rightarrow> input \<Rightarrow> run" where
  "chatGenerateContent w c inp =
     (let intakeAbortSignal = reqSignal c;
          prettyDialect = serverCapitalizeFirstLetter w (dialect (access inp));
          s0 = yieldStart newRun
      in case createChatGenerateDispatch w (access inp) (model inp) (chatGenerate inp) (streaming inp) of
           Inl error \<Rightarrow> yieldError dispatch_prepare (prepareMessage prettyDialect error) False s0
         | Inr dispatch \<Rightarrow>
             let s1 = (if debugRequested inp \<and> NODE_ENV w = ''development''
                       then perform [Yield (DebugClientPrint (JSON_stringify w (body (request dispatch))))] s0
                       else s0);
                 arguments = fetchArguments dispatch intakeAbortSignal prettyDialect;
                 s2 = perform [Fetch arguments] s1
             in (case fetchResponseOrTRPCThrow w arguments of
                   Inl error \<Rightarrow>
                     yieldError dispatch_fetch
                       (fetchMessage (NODE_ENV w) prettyDialect dispatch error)
                       (showOnConsoleForNonCustomServers (access inp)) s2
                 | Inr dispatchResponse \<Rightarrow>
                     if \<not> streaming inp then nonStreaming dispatch prettyDialect dispatchResponse s2
                     else pump w (chatGenerateParse dispatch) prettyDialect
                            (case response_body dispatchResponse of
                               None \<Rightarrow> createEmptyReadableStream | Some reads \<Rightarrow> reads)
                            (newTextDecoder w) (createStreamDemuxer w (demuxerFormat dispatch)) s2))"

subsection \<open>Notions the properties are stated with\<close>

fun isTerminal :: "event \<Rightarrow> bool" where
  "isTerminal (Termination _) = True"
| "isTerminal (Issue _ _ _) = True"
| "isTerminal _ = False"

fun isIssue :: "event \<Rightarrow> bool" where
  "isIssue (Issue _ _ _) = True"
| "isIssue _ = False"


fun isDebugYield :: "effect \<Rightarrow> bool" where
  "isDebugYield (Yield (DebugClientPrint _)) = True"
| "isDebugYield _ = False"

text \<open>A read of the body that was rejected with the error the code takes for the
  caller's abort: its name is \<^verbatim>\<open>ResponseAborted\<close>.\<close>

fun abortedRead :: "effect \<Rightarrow> bool" where
  "abortedRead (Read (ReadThrows error)) = (error_name error = ''ResponseAborted'')"
| "abortedRead (Read (ReadCancelled error)) = (error_name error = ''ResponseAborted'')"
| "abortedRead _ = False"

definition clientAborted :: "effect list \<Rightarrow> bool" where
  "clientAborted es = list_ex abortedRead es"

text \<open>An output sequence is framed when its first event is the start event, the start
  event occurs nowhere else, and no event before the last one is a terminal event.\<close>

definition framed :: "event list \<Rightarrow> bool" where
  "framed out =
     (case out of
        [] \<Rightarrow> False
      | e # rest \<Rightarrow> e = Start \<and> Start \<notin> set rest \<and> \<not> list_ex isTerminal (butlast rest))"

text \<open>The framing as the specification words it: exactly one start event, as the first
  element, and exactly one terminal event, as the last element.\<close>

definition startsOnceEndsOnce :: "event list \<Rightarrow> bool" where
  "startsOnceEndsOnce out =
     (out \<noteq> [] \<and> hd out = Start \<and> length (filter (\<lambda>e. e = Start) out) = 1 \<and>
      length (filter isTerminal out) = 1 \<and> isTerminal (last out))"

text \<open>The invariant of the intake: the output is framed; the intake has terminated exactly
  when the output ends with a terminal event or a read was rejected under the name
  \<^verbatim>\<open>ResponseAborted\<close>; and such a read never comes with a terminal event.\<close>

definition lifecycle :: "run \<Rightarrow> bool" where
  "lifecycle s =
     (framed (outputSequence (trace s)) \<and>
      (intakeTerminated s \<longleftrightarrow>
         isTerminal (last (outputSequence (trace s))) \<or> clientAborted (trace s)) \<and>
      \<not> (clientAborted (trace s) \<and> list_ex isTerminal (outputSequence (trace s))))"

text \<open>The wire messages shown to \<open>onReceivedWireMessage\<close>, in order.\<close>

fun receivedOf :: "effect \<Rightarrow> wireMessage list" where
  "receivedOf (Received m) = [m]"
| "receivedOf _ = []"

definition receivedMessages :: "effect list \<Rightarrow> wireMessage list" where
  "receivedMessages es = concat (map receivedOf es)"

text \<open>The calls of the parse function, in order.\<close>

fun parseCallOf :: "effect \<Rightarrow> (string \<times> string option) list" where
  "parseCallOf (ParseCall data name) = [(data, name)]"
| "parseCallOf _ = []"

definition parseCalls :: "effect list \<Rightarrow> (string \<times> string option) list" where
  "parseCalls es = concat (map parseCallOf es)"

text \<open>The outbound calls, in order.\<close>

fun fetchOf :: "effect \<Rightarrow> fetchParams list" where
  "fetchOf (Fetch p) = [p]"
| "fetchOf _ = []"

definition fetchCalls :: "effect list \<Rightarrow> fetchParams list" where
  "fetchCalls es = concat (map fetchOf es)"

text \<open>A demuxed item ends the run when it is an event that carries the sentinel or that
  the parse function rejects.\<close>

definition endsRun :: "parseFunction \<Rightarrow> demuxedItem \<Rightarrow> bool" where
  "endsRun parse item =
     (item_type item = ''event'' \<and>
      (item_data item = ''[DONE]'' \<or> snd (parse (item_data item) (item_name item)) \<noteq> None))"

text \<open>The items of a batch up to and including the first one that ends the run.\<close>

definition upToEnd :: "parseFunction \<Rightarrow> demuxedItem list \<Rightarrow> demuxedItem list" where
  "upToEnd parse items =
     takeWhile (\<lambda>item. \<not> endsRun parse item) items @
     take 1 (dropWhile (\<lambda>item. \<not> endsRun parse item) items)"

text \<open>A user-configured custom endpoint, as the specification words it (sections 3 and
  4.2: a custom or self-hosted provider endpoint, set up by the user): the access names a
  host of the user's own, whatever its dialect.\<close>

definition userConfiguredCustomEndpoint :: "access \<Rightarrow> bool" where
  "userConfiguredCustomEndpoint a = (case oaiHost a of None \<Rightarrow> False | Some host \<Rightarrow> host \<noteq> [])"

text \<open>The three calls the generator makes before it reads the response, as functions of
  the invocation.\<close>

abbreviation prettyDialectOf :: "('c, 'd) world \<Rightarrow> input \<Rightarrow> string" where
  "prettyDialectOf w inp \<equiv> serverCapitalizeFirstLetter w (dialect (access inp))"

abbreviation built :: "('c, 'd) world \<Rightarrow> input \<Rightarrow> thrown + dispatch" where
  "built w inp \<equiv>
     createChatGenerateDispatch w (access inp) (model inp) (chatGenerate inp) (streaming inp)"

abbreviation fetched :: "('c, 'd) world \<Rightarrow> ctx \<Rightarrow> input \<Rightarrow> dispatch \<Rightarrow> thrown + response" where
  "fetched w c inp dispatch \<equiv>
     fetchResponseOrTRPCThrow w (fetchArguments dispatch (reqSignal c) (prettyDialectOf w inp))"

text \<open>The diagnostic event of an invocation, if it has one.\<close>

definition debugPrint :: "('c, 'd) world \<Rightarrow> input \<Rightarrow> dispatch \<Rightarrow> event list" where
  "debugPrint w inp dispatch =
     (if debugRequested inp \<and> NODE_ENV w = ''development''
      then [DebugClientPrint (JSON_stringify w (body (request dispatch)))] else [])"

text \<open>The state of the run when the outbound call has been issued.\<close>

definition connecting :: "('c, 'd) world \<Rightarrow> ctx \<Rightarrow> input \<Rightarrow> dispatch \<Rightarrow> run" where
  "connecting w c inp dispatch =
     \<lparr>intakeTerminated = False, startEmitted = True,
      trace = Yield Start # map Yield (debugPrint w inp dispatch) @
              [Fetch (fetchArguments dispatch (reqSignal c) (prettyDialectOf w inp))]\<rparr>"

text \<open>What the code does once the call has been issued: it reads, reports to the intake
  handler, parses and transmits; it yields a termination, or an error of the fetch, read
  or parse stage with the flag of that stage; it yields nothing else and calls the
  network no more.\<close>

fun downstream :: "access \<Rightarrow> effect \<Rightarrow> bool" where
  "downstream a (Yield (Termination cause)) = True"
| "downstream a (Yield (Issue stage message showOnConsole)) =
     (stage \<noteq> dispatch_prepare \<and>
      showOnConsole = (if stage = dispatch_fetch then showOnConsoleForNonCustomServers a
                       else stage = dispatch_parse))"
| "downstream a (Yield e) = False"
| "downstream a (Fetch p) = False"
| "downstream a e = True"

text \<open>The second run continues the first: its trace is the first one's, followed by
  effects that are all downstream of the outbound call.\<close>

definition follows :: "access \<Rightarrow> run \<Rightarrow> run \<Rightarrow> bool" where
  "follows a s s' = (\<exists>ext. trace s' = trace s @ ext \<and> list_all (downstream a) ext)"

text \<open>The same world, but for the method field of the request its dispatch builder
  returns.\<close>

definition withRequestMethod :: "string \<Rightarrow> ('c, 'd) world \<Rightarrow> ('c, 'd) world" where
  "withRequestMethod m w =
     w\<lparr>createChatGenerateDispatch := (\<lambda>a mo g st.
         case createChatGenerateDispatch w a mo g st of
           Inl error \<Rightarrow> Inl error
         | Inr dispatch \<Rightarrow> Inr (dispatch\<lparr>request := (request dispatch)\<lparr>request_method := m\<rparr>\<rparr>))\<rparr>"

subsection \<open>A small provider, for concrete runs\<close>

text \<open>A line-oriented demuxer: each line of a chunk is an event, but for the lines that
  start with a colon, which are comments. The parse function transmits a payload that
  starts with a brace, and accepts it when it also ends with one; it rejects every other
  payload.\<close>

fun splitLines :: "string \<Rightarrow> string \<Rightarrow> string list" where
  "splitLines line [] = (if line = [] then [] else [line])"
| "splitLines line (c # cs) =
     (if c = CHR 0x0A then line # splitLines [] cs else splitLines (line @ [c]) cs)"

definition lineItem :: "string \<Rightarrow> demuxedItem" where
  "lineItem line =
     (if take 1 line = '':''
      then \<lparr>item_type = ''comment'', item_data = drop 1 line, item_name = None\<rparr>
      else \<lparr>item_type = ''event'', item_data = line, item_name = None\<rparr>)"

definition syntaxError :: thrown where
  "syntaxError =
     \<lparr>error_name = ''SyntaxError'', error_safeErrorString = Some ''Unexpected token'',
      error_cause = None\<rparr>"

definition responseAborted :: thrown where
  "responseAborted =
     \<lparr>error_name = ''ResponseAborted'', error_safeErrorString = None, error_cause = None\<rparr>"

definition abortError :: thrown where
  "abortError =
     \<lparr>error_name = ''AbortError'', error_safeErrorString = Some ''This operation was aborted'',
      error_cause = None\<rparr>"

definition connectionReset :: thrown where
  "connectionReset =
     \<lparr>error_name = ''TypeError'', error_safeErrorString = Some ''terminated'',
      error_cause = Some ''{}''\<rparr>"

definition exampleParse :: parseFunction where
  "exampleParse data name =
     (if take 1 data \<noteq> ''{'' then ([], Some syntaxError)
      else if last data = CHR ''}'' then ([JStr data], None)
      else ([JStr data], Some syntaxError))"

definition exampleDispatch :: dispatch where
  "exampleDispatch =
     \<lparr>request = \<lparr>url = ''https://api.example.com/v1/chat'', request_method = ''GET'',
                  headers = [(''Content-Type'', ''application/json'')],
                  body = JObj [(''stream'', JBool True)]\<rparr>,
      demuxerFormat = ''sse'',
      chatGenerateParse = exampleParse\<rparr>"

definition exampleWorld :: "string \<Rightarrow> (thrown + response) \<Rightarrow> (unit, unit) world" where
  "exampleWorld node_env outcome =
     \<lparr>NODE_ENV = node_env,
      serverCapitalizeFirstLetter = (\<lambda>s. s),
      createChatGenerateDispatch = (\<lambda>a m g st. Inr exampleDispatch),
      JSON_stringify = (\<lambda>j. ''{}''),
      fetchResponseOrTRPCThrow = (\<lambda>p. outcome),
      newTextDecoder = (),
      decode = (\<lambda>st bs. (map char_of bs, st)),
      createStreamDemuxer = (\<lambda>format. ()),
      demux = (\<lambda>st chunk. (map lineItem (splitLines [] chunk), st))\<rparr>"

definition exampleInput :: "bool \<Rightarrow> bool \<Rightarrow> input" where
  "exampleInput stream debug =
     \<lparr>access = \<lparr>dialect = ''openai'', oaiHost = None\<rparr>, model = JNull, chatGenerate = JNull,
      aixContext = JNull, streaming = stream,
      connectionOptions = Some \<lparr>debugDispatchRequestbody = Some debug\<rparr>\<rparr>"

definition exampleCtx :: ctx where
  "exampleCtx = \<lparr>reqSignal = AbortSignal 0\<rparr>"

definition bytesOf :: "string \<Rightarrow> bytes" where
  "bytesOf text = map of_char text"

definition streamed :: "readResult list \<Rightarrow> thrown + response" where
  "streamed reads = Inr \<lparr>response_text = Inr [], response_body = Some reads\<rparr>"


definition exampleStart :: run where
  "exampleStart =
     connecting (exampleWorld ''production'' (streamed [])) exampleCtx (exampleInput True False)
       exampleDispatch"

definition localaiInput :: input where
  "localaiInput =
     (exampleInput True False)
       \<lparr>access := \<lparr>dialect = ''localai'', oaiHost = Some ''http://localhost:8080''\<rparr>\<rparr>"

definition customInput :: input where
  "customInput =
     (exampleInput True False)
       \<lparr>access := \<lparr>dialect = ''openai'', oaiHost = Some ''http://localhost:1234''\<rparr>\<rparr>"

section \<open>Properties\<close>

subsection \<open>The effects of the intake handler\<close>

lemma trace_perform [simp]: "trace (perform es s) = trace s @ es"
  by (simp add: perform_def)

lemma intakeTerminated_perform [simp]: "intakeTerminated (perform es s) = intakeTerminated s"
  by (simp add: perform_def)

lemma outputSequence_Nil [simp]: "outputSequence [] = []"
  by (simp add: outputSequence_def)

lemma outputSequence_Cons [simp]: "outputSequence (x # xs) = outputOf x @ outputSequence xs"
  by (simp add: outputSequence_def)

lemma outputSequence_append [simp]:
  "outputSequence (xs @ ys) = outputSequence xs @ outputSequence ys"
  by (simp add: outputSequence_def)

lemma outputSequence_Transmit [simp]: "outputSequence (map Transmit ops) = []"
  by (induction ops) simp_all

lemma outputSequence_Yield [simp]: "outputSequence (map Yield es) = es"
  by (induction es) simp_all

lemma clientAborted_Nil [simp]: "clientAborted [] = False"
  by (simp add: clientAborted_def)

lemma clientAborted_Cons [simp]: "clientAborted (x # xs) = (abortedRead x \<or> clientAborted xs)"
  by (simp add: clientAborted_def)

lemma clientAborted_append [simp]:
  "clientAborted (xs @ ys) = (clientAborted xs \<or> clientAborted ys)"
  by (simp add: clientAborted_def)

lemma clientAborted_Transmit [simp]: "clientAborted (map Transmit ops) = False"
  by (induction ops) simp_all

lemma clientAborted_Yield [simp]: "clientAborted (map Yield es) = False"
  by (induction es) simp_all

lemma trace_yieldTermination:
  "trace (yieldTermination cause s) =
     (if intakeTerminated s then trace s else trace s @ [Yield (Termination cause)])"
  by (simp add: yieldTermination_def)

lemma intakeTerminated_yieldTermination [simp]: "intakeTerminated (yieldTermination cause s)"
  by (simp add: yieldTermination_def)

lemma trace_yieldError:
  "trace (yieldError stage m vis s) =
     (if intakeTerminated s then trace s
      else trace s @ Yield (Issue stage m vis) # (if vis then [SharedLog m] else []))"
  by (simp add: yieldError_def)

lemma intakeTerminated_yieldError [simp]: "intakeTerminated (yieldError stage m vis s)"
  by (simp add: yieldError_def)

lemma intakeTerminated_onReceivedWireMessage [simp]:
  "intakeTerminated (onReceivedWireMessage m s) = intakeTerminated s"
  by (simp add: onReceivedWireMessage_def)

lemma trace_onReceivedWireMessage [simp]:
  "trace (onReceivedWireMessage m s) = trace s @ [Received m]"
  by (simp add: onReceivedWireMessage_def)

subsection \<open>The run up to the outbound call\<close>

lemma intakeTerminated_connecting [simp]: "\<not> intakeTerminated (connecting w c inp dispatch)"
  by (simp add: connecting_def)

lemma chatGenerateContent_unfold:
  "chatGenerateContent w c inp =
     (case built w inp of
        Inl error \<Rightarrow>
          yieldError dispatch_prepare (prepareMessage (prettyDialectOf w inp) error) False
            (yieldStart newRun)
      | Inr dispatch \<Rightarrow>
          (case fetched w c inp dispatch of
             Inl error \<Rightarrow>
               yieldError dispatch_fetch
                 (fetchMessage (NODE_ENV w) (prettyDialectOf w inp) dispatch error)
                 (showOnConsoleForNonCustomServers (access inp)) (connecting w c inp dispatch)
           | Inr dispatchResponse \<Rightarrow>
               if \<not> streaming inp
               then nonStreaming dispatch (prettyDialectOf w inp) dispatchResponse
                      (connecting w c inp dispatch)
               else pump w (chatGenerateParse dispatch) (prettyDialectOf w inp)
                      (case response_body dispatchResponse of
                         None \<Rightarrow> createEmptyReadableStream | Some reads \<Rightarrow> reads)
                      (newTextDecoder w) (createStreamDemuxer w (demuxerFormat dispatch))
                      (connecting w c inp dispatch)))"
  by (simp add: chatGenerateContent_def connecting_def debugPrint_def
      yieldStart_def newRun_def perform_def Let_def split: sum.split)

subsection \<open>The lifecycle invariant\<close>

lemma framed_iff:
  "framed out \<longleftrightarrow> (\<exists>rest. out = Start # rest \<and> Start \<notin> set rest \<and>
     (\<forall>e \<in> set (butlast rest). \<not> isTerminal e))"
  by (cases out) (auto simp: framed_def list_ex_iff)

lemma in_set_butlast_or_last: "x \<in> set xs \<Longrightarrow> x \<in> set (butlast xs) \<or> x = last xs"
  by (induction xs) auto

lemma framed_no_terminal:
  assumes "framed out" "\<not> isTerminal (last out)"
  shows "\<not> list_ex isTerminal out"
proof -
  from assms(1) obtain rest where out: "out = Start # rest"
    and b: "\<forall>e \<in> set (butlast rest). \<not> isTerminal e"
    by (auto simp: framed_iff)
  show ?thesis
  proof (cases "rest = []")
    case True
    with out show ?thesis by simp
  next
    case False
    from False out assms(2) have "\<not> isTerminal (last rest)" by simp
    with b have "\<forall>e \<in> set rest. \<not> isTerminal e"
      using in_set_butlast_or_last [of _ rest] by blast
    with out show ?thesis by (simp add: list_ex_iff)
  qed
qed

lemma framed_extend:
  assumes "framed out" "\<not> list_ex isTerminal out" "Start \<notin> set es"
    "\<not> list_ex isTerminal (butlast es)"
  shows "framed (out @ es)"
proof (cases "es = []")
  case True
  with assms(1) show ?thesis by simp
next
  case False
  from assms(1) obtain rest where out: "out = Start # rest" and st: "Start \<notin> set rest"
    by (auto simp: framed_iff)
  from False have "butlast (rest @ es) = rest @ butlast es"
    by (simp add: butlast_append)
  with out st assms(2-4) show ?thesis
    by (auto simp: framed_iff list_ex_iff)
qed

lemma framed_terminals:
  assumes "framed out"
  shows "length (filter isTerminal out) \<le> 1"
proof -
  from assms obtain rest where out: "out = Start # rest"
    and b: "\<forall>e \<in> set (butlast rest). \<not> isTerminal e"
    by (auto simp: framed_iff)
  show ?thesis
  proof (cases "rest = []")
    case True
    with out show ?thesis by simp
  next
    case False
    then have "filter isTerminal rest = filter isTerminal (butlast rest @ [last rest])"
      by simp
    also have "\<dots> = filter isTerminal (butlast rest) @ filter isTerminal [last rest]"
      by (rule filter_append)
    also from b have "filter isTerminal (butlast rest) = []"
      by (simp add: filter_empty_conv)
    finally show ?thesis using out by simp
  qed
qed

lemma lifecycle_quiet:
  assumes "lifecycle s" "outputSequence es = []" "\<not> clientAborted es"
  shows "lifecycle (perform es s)"
  using assms by (simp add: lifecycle_def)

lemma lifecycle_operations:
  assumes "lifecycle s"
  shows "lifecycle (perform (ParseCall data name # map Transmit ops) s)"
  using assms by (rule lifecycle_quiet) simp_all

lemma lifecycle_terminal:
  assumes "lifecycle s" "\<not> intakeTerminated s" "isTerminal e" "outputSequence es = []"
    "\<not> clientAborted es"
  shows "lifecycle (perform (Yield e # es) (s\<lparr>intakeTerminated := True\<rparr>))"
proof -
  let ?out = "outputSequence (trace s)"
  from assms have f: "framed ?out" and nt: "\<not> isTerminal (last ?out)"
    and na: "\<not> clientAborted (trace s)"
    by (auto simp: lifecycle_def)
  from f nt have none: "\<not> list_ex isTerminal ?out" by (rule framed_no_terminal)
  from assms(3) have "e \<noteq> Start" by auto
  with f none have "framed (?out @ [e])" by (intro framed_extend) auto
  with assms na show ?thesis by (simp add: lifecycle_def perform_def)
qed

lemma lifecycle_yieldTermination: "lifecycle s \<Longrightarrow> lifecycle (yieldTermination cause s)"
  using lifecycle_terminal [of s "Termination cause" "[]"]
  by (simp add: yieldTermination_def)

lemma lifecycle_yieldError: "lifecycle s \<Longrightarrow> lifecycle (yieldError stage m vis s)"
  using lifecycle_terminal [of s "Issue stage m vis" "[SharedLog m]"]
    lifecycle_terminal [of s "Issue stage m vis" "[]"]
  by (cases vis) (simp_all add: yieldError_def)

lemma lifecycle_markTermination:
  assumes "lifecycle s" "\<not> intakeTerminated s" "abortedRead (Read r)"
  shows "lifecycle (markTermination (perform [Read r] s))"
proof -
  let ?out = "outputSequence (trace s)"
  from assms have f: "framed ?out" and nt: "\<not> isTerminal (last ?out)"
    by (auto simp: lifecycle_def)
  from f nt have "\<not> list_ex isTerminal ?out" by (rule framed_no_terminal)
  with assms nt f show ?thesis
    by (simp add: lifecycle_def markTermination_def perform_def)
qed

lemma lifecycle_forDemuxedItems:
  "lifecycle s \<Longrightarrow> lifecycle (forDemuxedItems parse pd items s)"
proof (induction items arbitrary: s)
  case Nil
  then show ?case by simp
next
  case (Cons item items)
  let ?s1 = "onReceivedWireMessage (WireItem item) s"
  from Cons.prems have s1: "lifecycle ?s1"
    by (simp add: onReceivedWireMessage_def lifecycle_quiet)
  show ?case
  proof (cases "intakeTerminated ?s1")
    case True
    with s1 show ?thesis by (simp add: lifecycle_quiet)
  next
    case nt: False
    show ?thesis
    proof (cases "item_type item \<noteq> ''event''")
      case True
      with nt s1 Cons.IH show ?thesis by simp
    next
      case ev: False
      show ?thesis
      proof (cases "item_data item = ''[DONE]''")
        case True
        with nt ev s1 show ?thesis by (simp add: lifecycle_yieldTermination)
      next
        case False
        obtain ops failure where p: "parse (item_data item) (item_name item) = (ops, failure)"
          by (cases "parse (item_data item) (item_name item)")
        let ?s2 = "perform (ParseCall (item_data item) (item_name item) # map Transmit ops) ?s1"
        from s1 have s2: "lifecycle ?s2" by (rule lifecycle_operations)
        show ?thesis
        proof (cases failure)
          case None
          with nt ev False p s2 Cons.IH show ?thesis by (simp add: callParse_def)
        next
          case (Some error)
          with nt ev False p s2 show ?thesis by (simp add: callParse_def lifecycle_yieldError)
        qed
      qed
    qed
  qed
qed

lemma lifecycle_pump:
  "lifecycle s \<Longrightarrow> \<not> intakeTerminated s \<Longrightarrow>
   lifecycle (pump w parse pd reads decoder demuxer s)"
proof (induction reads arbitrary: s decoder demuxer)
  case Nil
  then show ?case by (simp add: lifecycle_yieldTermination lifecycle_quiet)
next
  case (Cons r reads)
  let ?s0 = "perform [Read r] s"
  show ?case
  proof (cases r)
    case (ReadValue v)
    obtain chunk decoder' where d: "decode w decoder v = (chunk, decoder')"
      by (cases "decode w decoder v")
    obtain items demuxer' where m: "demux w demuxer chunk = (items, demuxer')"
      by (cases "demux w demuxer chunk")
    from Cons.prems ReadValue have "lifecycle ?s0" by (simp add: lifecycle_quiet)
    then have "lifecycle (forDemuxedItems parse pd items ?s0)"
      by (rule lifecycle_forDemuxedItems)
    with ReadValue d m Cons.IH show ?thesis by (simp add: Let_def)
  next
    case ReadDone
    with Cons.prems show ?thesis by (simp add: lifecycle_yieldTermination lifecycle_quiet)
  next
    case (ReadThrows error)
    show ?thesis
    proof (cases "error_name error = ''ResponseAborted''")
      case True
      with ReadThrows Cons.prems lifecycle_markTermination [of s r] show ?thesis by simp
    next
      case False
      with Cons.prems ReadThrows have "lifecycle ?s0" by (simp add: lifecycle_quiet)
      with False ReadThrows show ?thesis by (simp add: lifecycle_yieldError)
    qed
  next
    case (ReadCancelled error)
    show ?thesis
    proof (cases "error_name error = ''ResponseAborted''")
      case True
      with ReadCancelled Cons.prems lifecycle_markTermination [of s r] show ?thesis by simp
    next
      case False
      with Cons.prems ReadCancelled have "lifecycle ?s0" by (simp add: lifecycle_quiet)
      with False ReadCancelled show ?thesis by (simp add: lifecycle_yieldError)
    qed
  qed
qed

lemma lifecycle_nonStreaming:
  assumes s: "lifecycle s" and nt: "\<not> intakeTerminated s"
  shows "lifecycle (nonStreaming dispatch pd resp s)"
proof -
  let ?s0 = "perform [ReadText (response_text resp)] s"
  from s have s0: "lifecycle ?s0" by (simp add: lifecycle_quiet)
  show ?thesis
  proof (cases "response_text resp")
    case (Inl error)
    with s0 show ?thesis by (simp add: nonStreaming_def lifecycle_yieldError)
  next
    case (Inr dispatchBody)
    let ?s1 = "onReceivedWireMessage (WireBody dispatchBody) ?s0"
    from s0 have s1: "lifecycle ?s1" by (simp add: onReceivedWireMessage_def lifecycle_quiet)
    obtain ops failure where p: "chatGenerateParse dispatch dispatchBody None = (ops, failure)"
      by (cases "chatGenerateParse dispatch dispatchBody None")
    have nt1: "\<not> intakeTerminated ?s1" using nt by simp
    from s1 have s2: "lifecycle (perform (ParseCall dispatchBody None # map Transmit ops) ?s1)"
      by (rule lifecycle_operations)
    show ?thesis
    proof (cases failure)
      case None
      with Inr p s2 show ?thesis by (simp add: nonStreaming_def callParse_def)
    next
      case (Some error)
      with Inr p s2 show ?thesis by (simp add: nonStreaming_def callParse_def lifecycle_yieldError)
    qed
  qed
qed

lemma lifecycle_yieldStart: "lifecycle (yieldStart newRun)"
  by (simp add: lifecycle_def yieldStart_def newRun_def framed_def perform_def)

lemma lifecycle_connecting: "lifecycle (connecting w c inp dispatch)"
  by (simp add: lifecycle_def connecting_def debugPrint_def framed_def)

lemma lifecycle_chatGenerateContent: "lifecycle (chatGenerateContent w c inp)"
  by (simp add: chatGenerateContent_unfold lifecycle_yieldError lifecycle_yieldStart
      lifecycle_connecting lifecycle_pump lifecycle_nonStreaming split: sum.split)

subsection \<open>What the code does after the outbound call\<close>

lemma follows_refl: "follows a s s"
  by (simp add: follows_def)

lemma follows_trans: "follows a s s' \<Longrightarrow> follows a s' s'' \<Longrightarrow> follows a s s''"
  by (auto simp: follows_def)

lemma follows_perform: "list_all (downstream a) es \<Longrightarrow> follows a s (perform es s)"
  by (simp add: follows_def)

lemma downstream_Transmit [simp]: "list_all (downstream a) (map Transmit ops)"
  by (induction ops) simp_all

lemma follows_yieldTermination: "follows a s (yieldTermination cause s)"
  by (simp add: follows_def trace_yieldTermination)

lemma follows_yieldError:
  assumes "stage \<noteq> dispatch_prepare"
    and "vis = (if stage = dispatch_fetch then showOnConsoleForNonCustomServers a
                else stage = dispatch_parse)"
  shows "follows a s (yieldError stage m vis s)"
  using assms by (simp add: follows_def trace_yieldError)

lemma follows_markTermination: "follows a s (markTermination s)"
  by (simp add: follows_def markTermination_def)

lemma follows_forDemuxedItems: "follows a s (forDemuxedItems parse pd items s)"
proof (induction items arbitrary: s)
  case Nil
  show ?case by (simp add: follows_refl)
next
  case (Cons item items)
  let ?s1 = "onReceivedWireMessage (WireItem item) s"
  have s1: "follows a s ?s1"
    by (simp add: onReceivedWireMessage_def follows_perform)
  obtain ops failure where p: "parse (item_data item) (item_name item) = (ops, failure)"
    by (cases "parse (item_data item) (item_name item)")
  let ?s2 = "perform (ParseCall (item_data item) (item_name item) # map Transmit ops) ?s1"
  have s2: "follows a s ?s2"
    by (rule follows_trans [OF s1]) (simp add: follows_perform)
  consider (stopped) "intakeTerminated ?s1"
    | (skipped) "\<not> intakeTerminated ?s1" "item_type item \<noteq> ''event''"
    | (sentinel) "\<not> intakeTerminated ?s1" "item_type item = ''event''" "item_data item = ''[DONE]''"
    | (parsed) "\<not> intakeTerminated ?s1" "item_type item = ''event''"
        "item_data item \<noteq> ''[DONE]''" "failure = None"
    | (rejected) error where "\<not> intakeTerminated ?s1" "item_type item = ''event''"
        "item_data item \<noteq> ''[DONE]''" "failure = Some error"
    by (cases failure) auto
  then show ?case
  proof cases
    case stopped
    have "follows a ?s1 (perform [Warn item] ?s1)" by (simp add: follows_perform)
    with s1 stopped show ?thesis by (simp add: follows_trans)
  next
    case skipped
    with follows_trans [OF s1 Cons.IH [of ?s1]] show ?thesis by simp
  next
    case sentinel
    with follows_trans [OF s1 follows_yieldTermination [of a ?s1 event_done]]
    show ?thesis by simp
  next
    case parsed
    with p follows_trans [OF s2 Cons.IH [of ?s2]] show ?thesis
      by (simp add: callParse_def)
  next
    case rejected
    have "follows a ?s2 (yieldError dispatch_parse
            (serviceParsingMessage pd error (item_data item)) True ?s2)"
      by (rule follows_yieldError) simp_all
    with rejected p follows_trans [OF s2] show ?thesis
      by (simp add: callParse_def)
  qed
qed

lemma follows_pump: "follows a s (pump w parse pd reads decoder demuxer s)"
proof (induction reads arbitrary: s decoder demuxer)
  case Nil
  have "follows a s (perform [Read ReadDone] s)" by (simp add: follows_perform)
  then show ?case by (simp add: follows_trans [OF _ follows_yieldTermination])
next
  case (Cons r reads)
  let ?s0 = "perform [Read r] s"
  have s0: "follows a s ?s0" by (simp add: follows_perform)
  show ?case
  proof (cases r)
    case (ReadValue v)
    obtain chunk decoder' where d: "decode w decoder v = (chunk, decoder')"
      by (cases "decode w decoder v")
    obtain items demuxer' where m: "demux w demuxer chunk = (items, demuxer')"
      by (cases "demux w demuxer chunk")
    let ?s1 = "forDemuxedItems parse pd items ?s0"
    have s1: "follows a s ?s1" by (rule follows_trans [OF s0 follows_forDemuxedItems])
    from follows_trans [OF s1 Cons.IH [of ?s1 decoder' demuxer']] s1 ReadValue d m
    show ?thesis by (simp add: Let_def)
  next
    case ReadDone
    with follows_trans [OF s0 follows_yieldTermination] show ?thesis by simp
  next
    case (ReadThrows error)
    have "follows a ?s0 (yieldError dispatch_read (streamingMessage pd error) False ?s0)"
      by (rule follows_yieldError) simp_all
    with ReadThrows follows_trans [OF s0] follows_trans [OF s0 follows_markTermination]
    show ?thesis by (simp add: Let_def)
  next
    case (ReadCancelled error)
    have "follows a ?s0 (yieldError dispatch_read (streamingMessage pd error) False ?s0)"
      by (rule follows_yieldError) simp_all
    with ReadCancelled follows_trans [OF s0] follows_trans [OF s0 follows_markTermination]
    show ?thesis by (simp add: Let_def)
  qed
qed

lemma follows_nonStreaming: "follows a s (nonStreaming dispatch pd resp s)"
proof -
  let ?s0 = "perform [ReadText (response_text resp)] s"
  have s0: "follows a s ?s0" by (simp add: follows_perform)
  show ?thesis
  proof (cases "response_text resp")
    case (Inl error)
    have "follows a ?s0 (yieldError dispatch_read (readingMessage pd error) False ?s0)"
      by (rule follows_yieldError) simp_all
    with Inl follows_trans [OF s0] show ?thesis by (simp add: nonStreaming_def)
  next
    case (Inr dispatchBody)
    obtain ops failure where p: "chatGenerateParse dispatch dispatchBody None = (ops, failure)"
      by (cases "chatGenerateParse dispatch dispatchBody None")
    let ?s2 = "perform (ParseCall dispatchBody None # map Transmit ops)
                 (onReceivedWireMessage (WireBody dispatchBody) ?s0)"
    have "follows a ?s0 ?s2" by (simp add: follows_def onReceivedWireMessage_def)
    with s0 have s2: "follows a s ?s2" by (rule follows_trans)
    show ?thesis
    proof (cases failure)
      case None
      with Inr p s2 show ?thesis by (simp add: nonStreaming_def callParse_def)
    next
      case (Some error)
      have "follows a ?s2 (yieldError dispatch_parse
              (parsingMessage pd error dispatchBody) True ?s2)"
        by (rule follows_yieldError) simp_all
      with Some Inr p follows_trans [OF s2] show ?thesis
        by (simp add: nonStreaming_def callParse_def)
    qed
  qed
qed

lemma follows_chatGenerateContent:
  assumes "built w inp = Inr dispatch"
  shows "follows (access inp) (connecting w c inp dispatch) (chatGenerateContent w c inp)"
proof (cases "fetched w c inp dispatch")
  case (Inl error)
  have "follows (access inp) (connecting w c inp dispatch)
          (yieldError dispatch_fetch
             (fetchMessage (NODE_ENV w) (prettyDialectOf w inp) dispatch error)
             (showOnConsoleForNonCustomServers (access inp)) (connecting w c inp dispatch))"
    by (rule follows_yieldError) simp_all
  with assms Inl show ?thesis by (simp add: chatGenerateContent_unfold)
next
  case (Inr resp)
  with assms show ?thesis
    by (simp add: chatGenerateContent_unfold follows_pump follows_nonStreaming)
qed

subsection \<open>The loop over the items of a chunk\<close>

lemma receivedMessages_Nil [simp]: "receivedMessages [] = []"
  by (simp add: receivedMessages_def)

lemma receivedMessages_Cons [simp]:
  "receivedMessages (x # xs) = receivedOf x @ receivedMessages xs"
  by (simp add: receivedMessages_def)

lemma receivedMessages_append [simp]:
  "receivedMessages (xs @ ys) = receivedMessages xs @ receivedMessages ys"
  by (simp add: receivedMessages_def)

lemma receivedMessages_Transmit [simp]: "receivedMessages (map Transmit ops) = []"
  by (induction ops) simp_all

lemma forDemuxedItems_ends:
  "\<not> intakeTerminated s \<Longrightarrow>
   intakeTerminated (forDemuxedItems parse pd items s) = list_ex (endsRun parse) items"
proof (induction items arbitrary: s)
  case Nil
  then show ?case by simp
next
  case (Cons item items)
  obtain ops failure where p: "parse (item_data item) (item_name item) = (ops, failure)"
    by (cases "parse (item_data item) (item_name item)")
  from Cons.prems Cons.IH p show ?case
    by (cases failure) (simp_all add: endsRun_def callParse_def Let_def)
qed

lemma forDemuxedItems_append:
  "\<not> intakeTerminated s \<Longrightarrow>
   forDemuxedItems parse pd (xs @ ys) s =
     (if list_ex (endsRun parse) xs then forDemuxedItems parse pd xs s
      else forDemuxedItems parse pd ys (forDemuxedItems parse pd xs s))"
proof (induction xs arbitrary: s)
  case Nil
  then show ?case by simp
next
  case (Cons item xs)
  obtain ops failure where p: "parse (item_data item) (item_name item) = (ops, failure)"
    by (cases "parse (item_data item) (item_name item)")
  from Cons.prems Cons.IH p show ?case
    by (cases failure) (simp_all add: endsRun_def callParse_def Let_def)
qed

lemma forDemuxedItems_received:
  "\<not> intakeTerminated s \<Longrightarrow>
   receivedMessages (trace (forDemuxedItems parse pd items s)) =
     receivedMessages (trace s) @ map WireItem (upToEnd parse items)"
proof (induction items arbitrary: s)
  case Nil
  then show ?case by (simp add: upToEnd_def)
next
  case (Cons item items)
  obtain ops failure where p: "parse (item_data item) (item_name item) = (ops, failure)"
    by (cases "parse (item_data item) (item_name item)")
  from Cons.prems Cons.IH p show ?case
    by (cases failure)
      (simp_all add: endsRun_def callParse_def upToEnd_def trace_yieldTermination trace_yieldError
        Let_def)
qed

subsection \<open>One turn of the data pump\<close>

lemma pump_ReadDone:
  "pump w parse pd (ReadDone # reads) decoder demuxer s =
     yieldTermination dispatch_close (perform [Read ReadDone] s)"
  by (simp add: Let_def)

lemma pump_ReadThrows:
  "pump w parse pd (ReadThrows error # reads) decoder demuxer s =
     (if error_name error = ''ResponseAborted''
      then markTermination (perform [Read (ReadThrows error)] s)
      else yieldError dispatch_read (streamingMessage pd error) False
             (perform [Read (ReadThrows error)] s))"
  by (simp add: Let_def)

lemma pump_ReadCancelled:
  "pump w parse pd (ReadCancelled error # reads) decoder demuxer s =
     (if error_name error = ''ResponseAborted''
      then markTermination (perform [Read (ReadCancelled error)] s)
      else yieldError dispatch_read (streamingMessage pd error) False
             (perform [Read (ReadCancelled error)] s))"
  by (simp add: Let_def)

lemma pump_ReadValue:
  assumes "decode w decoder v = (chunk, decoder')"
    and "demux w demuxer chunk = (items, demuxer')"
  shows "pump w parse pd (ReadValue v # reads) decoder demuxer s =
     (if intakeTerminated (forDemuxedItems parse pd items (perform [Read (ReadValue v)] s))
      then forDemuxedItems parse pd items (perform [Read (ReadValue v)] s)
      else pump w parse pd reads decoder' demuxer'
             (forDemuxedItems parse pd items (perform [Read (ReadValue v)] s)))"
  using assms by (simp add: Let_def)

subsection \<open>Calls counted on a trace\<close>

lemma parseCalls_Nil [simp]: "parseCalls [] = []"
  by (simp add: parseCalls_def)

lemma parseCalls_Cons [simp]: "parseCalls (x # xs) = parseCallOf x @ parseCalls xs"
  by (simp add: parseCalls_def)

lemma parseCalls_append [simp]: "parseCalls (xs @ ys) = parseCalls xs @ parseCalls ys"
  by (simp add: parseCalls_def)

lemma parseCalls_Transmit [simp]: "parseCalls (map Transmit ops) = []"
  by (induction ops) simp_all

lemma transmitted_Nil [simp]: "transmitted [] = []"
  by (simp add: transmitted_def)

lemma transmitted_Cons [simp]: "transmitted (x # xs) = transmittedOf x @ transmitted xs"
  by (simp add: transmitted_def)

lemma transmitted_append [simp]: "transmitted (xs @ ys) = transmitted xs @ transmitted ys"
  by (simp add: transmitted_def)

lemma transmitted_Transmit [simp]: "transmitted (map Transmit ops) = ops"
  by (induction ops) simp_all

lemma transmitted_Yield [simp]: "transmitted (map Yield es) = []"
  by (induction es) simp_all

lemma fetchCalls_Nil [simp]: "fetchCalls [] = []"
  by (simp add: fetchCalls_def)

lemma fetchCalls_Cons [simp]: "fetchCalls (x # xs) = fetchOf x @ fetchCalls xs"
  by (simp add: fetchCalls_def)

lemma fetchCalls_append [simp]: "fetchCalls (xs @ ys) = fetchCalls xs @ fetchCalls ys"
  by (simp add: fetchCalls_def)

lemma fetchCalls_Yield [simp]: "fetchCalls (map Yield es) = []"
  by (induction es) simp_all

lemma downstream_no_fetch: "list_all (downstream a) ext \<Longrightarrow> fetchCalls ext = []"
proof (induction ext)
  case Nil
  show ?case by simp
next
  case (Cons x ext)
  then show ?case by (cases x) simp_all
qed

lemma downstream_not_debug: "downstream a x \<Longrightarrow> \<not> isDebugYield x"
proof (cases x)
  case (Yield e)
  assume "downstream a x"
  with Yield show ?thesis by (cases e) simp_all
qed simp_all

lemma downstream_no_debug: "list_all (downstream a) ext \<Longrightarrow> \<not> list_ex isDebugYield ext"
  by (auto simp: list_all_iff list_ex_iff dest: downstream_not_debug)

lemma outputSequence_member:
  "e \<in> set (outputSequence es) \<Longrightarrow> Yield e \<in> set es"
proof (induction es)
  case Nil
  then show ?case by simp
next
  case (Cons x es)
  then show ?case by (cases x) auto
qed

lemma debugPrint_no_issue: "Issue stage m vis \<notin> set (debugPrint w inp dispatch)"
  by (simp add: debugPrint_def)

lemma debugPrint_only_when_requested:
  "list_ex isDebugYield (map Yield (debugPrint w inp dispatch)) \<Longrightarrow>
   debugRequested inp \<and> NODE_ENV w = ''development''"
  by (simp add: debugPrint_def split: if_splits)

lemma forDemuxedItems_parseCalls:
  "\<not> intakeTerminated s \<Longrightarrow> \<not> list_ex (endsRun parse) items \<Longrightarrow>
   parseCalls (trace (forDemuxedItems parse pd items s)) =
     parseCalls (trace s) @
     map (\<lambda>item. (item_data item, item_name item))
       (filter (\<lambda>item. item_type item = ''event'') items)"
proof (induction items arbitrary: s)
  case Nil
  then show ?case by simp
next
  case (Cons item items)
  obtain ops failure where p: "parse (item_data item) (item_name item) = (ops, failure)"
    by (cases "parse (item_data item) (item_name item)")
  from Cons.prems Cons.IH p show ?case
    by (cases failure) (simp_all add: endsRun_def callParse_def Let_def)
qed

lemma pump_same_codec:
  assumes "decode w' = decode w" "demux w' = demux w"
  shows "pump w' parse pd reads decoder demuxer s = pump w parse pd reads decoder demuxer s"
proof (induction reads arbitrary: s decoder demuxer)
  case Nil
  show ?case by simp
next
  case (Cons r reads)
  show ?case
  proof (cases r)
    case (ReadValue v)
    obtain chunk decoder' where d: "decode w decoder v = (chunk, decoder')"
      by (cases "decode w decoder v")
    obtain items demuxer' where m: "demux w demuxer chunk = (items, demuxer')"
      by (cases "demux w demuxer chunk")
    from d m assms have "decode w' decoder v = (chunk, decoder')"
      "demux w' demuxer chunk = (items, demuxer')" by simp_all
    with d m ReadValue Cons.IH show ?thesis
      by (simp add: pump_ReadValue del: pump.simps)
  next
    case ReadDone
    then show ?thesis by (simp add: pump_ReadDone del: pump.simps)
  next
    case (ReadThrows error)
    then show ?thesis by (simp add: pump_ReadThrows del: pump.simps)
  next
    case (ReadCancelled error)
    then show ?thesis by (simp add: pump_ReadCancelled del: pump.simps)
  qed
qed

lemma trace_after_connecting:
  assumes "built w inp = Inr dispatch"
  shows "\<exists>ext. trace (chatGenerateContent w c inp) =
           Yield Start # map Yield (debugPrint w inp dispatch) @
           Fetch (fetchArguments dispatch (reqSignal c) (prettyDialectOf w inp)) # ext \<and>
         list_all (downstream (access inp)) ext"
  using follows_chatGenerateContent [OF assms, of c]
  by (auto simp: follows_def connecting_def)

lemma trace_prepare_failure:
  assumes "built w inp = Inl error"
  shows "trace (chatGenerateContent w c inp) =
           [Yield Start, Yield (Issue dispatch_prepare (prepareMessage (prettyDialectOf w inp) error) False)]"
  using assms
  by (simp add: chatGenerateContent_unfold trace_yieldError yieldStart_def newRun_def)

subsection \<open>The runs that end with the intake terminated\<close>

lemma intakeTerminated_pump: "intakeTerminated (pump w parse pd reads decoder demuxer s)"
proof (induction reads arbitrary: s decoder demuxer)
  case Nil
  show ?case by simp
next
  case (Cons r reads)
  show ?case
  proof (cases r)
    case (ReadValue v)
    obtain chunk decoder' where d: "decode w decoder v = (chunk, decoder')"
      by (cases "decode w decoder v")
    obtain items demuxer' where m: "demux w demuxer chunk = (items, demuxer')"
      by (cases "demux w demuxer chunk")
    from ReadValue Cons.IH show ?thesis
      by (simp add: pump_ReadValue [OF d m] del: pump.simps)
  next
    case ReadDone
    then show ?thesis by (simp add: pump_ReadDone del: pump.simps)
  next
    case (ReadThrows error)
    then show ?thesis by (simp add: pump_ReadThrows markTermination_def del: pump.simps)
  next
    case (ReadCancelled error)
    then show ?thesis by (simp add: pump_ReadCancelled markTermination_def del: pump.simps)
  qed
qed

lemma nonStreaming_not_terminated:
  assumes "\<not> intakeTerminated (nonStreaming dispatch pd resp s)"
  shows "\<exists>dispatchBody ops. response_text resp = Inr dispatchBody \<and>
           chatGenerateParse dispatch dispatchBody None = (ops, None)"
proof (cases "response_text resp")
  case (Inl error)
  with assms show ?thesis by (simp add: nonStreaming_def)
next
  case (Inr dispatchBody)
  obtain ops failure where p: "chatGenerateParse dispatch dispatchBody None = (ops, failure)"
    by (cases "chatGenerateParse dispatch dispatchBody None")
  with assms Inr have "failure = None"
    by (cases failure) (simp_all add: nonStreaming_def callParse_def)
  with Inr p show ?thesis by simp
qed

lemma chatGenerateContent_not_terminated:
  assumes "\<not> intakeTerminated (chatGenerateContent w c inp)"
  shows "\<not> streaming inp \<and>
         (\<exists>dispatch resp dispatchBody ops.
            built w inp = Inr dispatch \<and> fetched w c inp dispatch = Inr resp \<and>
            response_text resp = Inr dispatchBody \<and>
            chatGenerateParse dispatch dispatchBody None = (ops, None))"
proof (cases "built w inp")
  case (Inl error)
  with assms show ?thesis by (simp add: chatGenerateContent_unfold)
next
  case built: (Inr dispatch)
  show ?thesis
  proof (cases "fetched w c inp dispatch")
    case (Inl error)
    with assms built show ?thesis by (simp add: chatGenerateContent_unfold)
  next
    case fetched: (Inr resp)
    from assms built fetched have whole_body: "\<not> streaming inp"
      by (auto simp: chatGenerateContent_unfold intakeTerminated_pump simp del: pump.simps)
    with assms built fetched
    have "\<not> intakeTerminated (nonStreaming dispatch (prettyDialectOf w inp) resp
        (connecting w c inp dispatch))"
      by (simp add: chatGenerateContent_unfold)
    from nonStreaming_not_terminated [OF this] built fetched whole_body
    show ?thesis by auto
  qed
qed

subsection \<open>C1: the framing of the output sequence\<close>

text \<open>
  C1, as stated, fails: a run whose chunk read is rejected under the name
  \<^verbatim>\<open>ResponseAborted\<close>, which the code takes for the caller's abort, ends without any
  terminal event. Here the first read of the stream is rejected so; the output is the
  start event and no more.
\<close>

theorem framing_fails_on_client_abort:
  "outputSequence (trace (chatGenerateContent
      (exampleWorld ''production'' (streamed [ReadThrows responseAborted]))
      exampleCtx (exampleInput True False))) = [Start]
   \<and> \<not> startsOnceEndsOnce [Start]"
  by code_simp

text \<open>
  C1, amended. For every invocation, whatever the collaborators do: the output sequence
  begins with the start event, which occurs nowhere else; it holds at most one terminal
  event, and no event follows a terminal one; when the run ends with the intake
  terminated and no chunk read was rejected under the name \<^verbatim>\<open>ResponseAborted\<close>, the last
  event is a terminal event; and when a chunk read was rejected under that name, the
  intake is terminated and the output holds no terminal event. The intake ends terminated
  in every run but the
  non-streaming ones whose body was read and parsed without a failure; of those nothing
  more is stated.
\<close>

theorem framing_of_every_run:
  "framed (outputSequence (trace (chatGenerateContent w c inp))) \<and>
   length (filter isTerminal (outputSequence (trace (chatGenerateContent w c inp)))) \<le> 1 \<and>
   (intakeTerminated (chatGenerateContent w c inp) \<and>
      \<not> clientAborted (trace (chatGenerateContent w c inp)) \<longrightarrow>
    isTerminal (last (outputSequence (trace (chatGenerateContent w c inp))))) \<and>
   (clientAborted (trace (chatGenerateContent w c inp)) \<longrightarrow>
    intakeTerminated (chatGenerateContent w c inp) \<and>
    \<not> list_ex isTerminal (outputSequence (trace (chatGenerateContent w c inp)))) \<and>
   (\<not> intakeTerminated (chatGenerateContent w c inp) \<longrightarrow>
    \<not> streaming inp \<and>
    (\<exists>dispatch resp dispatchBody ops.
       built w inp = Inr dispatch \<and> fetched w c inp dispatch = Inr resp \<and>
       response_text resp = Inr dispatchBody \<and>
       chatGenerateParse dispatch dispatchBody None = (ops, None)))"
proof -
  let ?run = "chatGenerateContent w c inp"
  have l: "lifecycle ?run" by (rule lifecycle_chatGenerateContent)
  then have "framed (outputSequence (trace ?run))" by (simp add: lifecycle_def)
  then have "length (filter isTerminal (outputSequence (trace ?run))) \<le> 1"
    by (rule framed_terminals)
  with l have "framed (outputSequence (trace ?run)) \<and>
      length (filter isTerminal (outputSequence (trace ?run))) \<le> 1 \<and>
      (intakeTerminated ?run \<and> \<not> clientAborted (trace ?run) \<longrightarrow>
       isTerminal (last (outputSequence (trace ?run)))) \<and>
      (clientAborted (trace ?run) \<longrightarrow>
       intakeTerminated ?run \<and> \<not> list_ex isTerminal (outputSequence (trace ?run)))"
    by (auto simp: lifecycle_def)
  with chatGenerateContent_not_terminated [of w c inp] show ?thesis by blast
qed

theorem framing_of_every_run_witness:
  "intakeTerminated (chatGenerateContent
      (exampleWorld ''production'' (streamed [ReadValue (bytesOf (''{a}'' @ newline @ ''[DONE]''))]))
      exampleCtx (exampleInput True False)) \<and>
   \<not> clientAborted (trace (chatGenerateContent
      (exampleWorld ''production'' (streamed [ReadValue (bytesOf (''{a}'' @ newline @ ''[DONE]''))]))
      exampleCtx (exampleInput True False))) \<and>
   isTerminal (last (outputSequence (trace (chatGenerateContent
      (exampleWorld ''production'' (streamed [ReadValue (bytesOf (''{a}'' @ newline @ ''[DONE]''))]))
      exampleCtx (exampleInput True False)))))"
proof -
  let ?run = "chatGenerateContent
      (exampleWorld ''production'' (streamed [ReadValue (bytesOf (''{a}'' @ newline @ ''[DONE]''))]))
      exampleCtx (exampleInput True False)"
  have given: "intakeTerminated ?run \<and> \<not> clientAborted (trace ?run)"
    by code_simp
  with framing_of_every_run
    [of "exampleWorld ''production'' (streamed [ReadValue (bytesOf (''{a}'' @ newline @ ''[DONE]''))])"
      exampleCtx "exampleInput True False"]
  show ?thesis by blast
qed

subsection \<open>C2: the sentinel\<close>

text \<open>
  C2, as stated, fails: a demuxed event may carry the sentinel and the run still not yield
  the termination \<open>event-done\<close>. Here one chunk holds a payload the parse function rejects,
  then the sentinel; the run ends with the error of the parse stage, and the sentinel is
  never looked at.
\<close>

theorem sentinel_behind_a_parse_failure:
  "fst (demux (exampleWorld ''production'' (streamed [])) ()
         (fst (decode (exampleWorld ''production'' (streamed [])) ()
            (bytesOf (''bad'' @ newline @ ''[DONE]''))))) =
     [\<lparr>item_type = ''event'', item_data = ''bad'', item_name = None\<rparr>,
      \<lparr>item_type = ''event'', item_data = ''[DONE]'', item_name = None\<rparr>]
   \<and> outputSequence (trace (chatGenerateContent
        (exampleWorld ''production''
           (streamed [ReadValue (bytesOf (''bad'' @ newline @ ''[DONE]''))]))
        exampleCtx (exampleInput True False))) =
     [Start, Issue dispatch_parse (serviceParsingMessage ''openai'' syntaxError ''bad'') True]"
  by code_simp

text \<open>
  C2, amended. Let the data pump, with the intake not terminated, read a chunk whose batch
  holds an event that carries the sentinel. Then the pump returns what the loop over the
  batch up to and including that event returns: no item behind the sentinel and no later
  read touches the run, and the intake is terminated. When no item before the sentinel
  ends the run, the trace ends with the sentinel shown to the intake handler and the
  termination \<open>event-done\<close>, and the parse function has been called for the events before
  the sentinel and for nothing else.
\<close>

theorem sentinel_ends_the_run:
  assumes "\<not> intakeTerminated s"
    and "decode w decoder v = (chunk, decoder')"
    and "demux w demuxer chunk = (earlier @ item # rest, demuxer')"
    and "item_type item = ''event''" and "item_data item = ''[DONE]''"
  shows "pump w parse pd (ReadValue v # later) decoder demuxer s =
           forDemuxedItems parse pd (earlier @ [item]) (perform [Read (ReadValue v)] s) \<and>
         intakeTerminated (pump w parse pd (ReadValue v # later) decoder demuxer s) \<and>
         (\<not> list_ex (endsRun parse) earlier \<longrightarrow>
            trace (pump w parse pd (ReadValue v # later) decoder demuxer s) =
              trace (forDemuxedItems parse pd earlier (perform [Read (ReadValue v)] s)) @
              [Received (WireItem item), Yield (Termination event_done)] \<and>
            parseCalls (trace (pump w parse pd (ReadValue v # later) decoder demuxer s)) =
              parseCalls (trace s) @
              map (\<lambda>item. (item_data item, item_name item))
                (filter (\<lambda>item. item_type item = ''event'') earlier))"
proof -
  let ?s0 = "perform [Read (ReadValue v)] s"
  let ?s1 = "forDemuxedItems parse pd earlier ?s0"
  from assms(1) have live: "\<not> intakeTerminated ?s0" by simp
  have sentinel: "endsRun parse item"
    using assms(4,5) by (simp add: endsRun_def)
  have one: "forDemuxedItems parse pd (item # xs) s' =
      yieldTermination event_done (onReceivedWireMessage (WireItem item) s')"
    if "\<not> intakeTerminated s'" for xs s'
    using that assms(4,5) by (simp add: Let_def)
  have same: "forDemuxedItems parse pd (earlier @ item # rest) ?s0 =
      forDemuxedItems parse pd (earlier @ [item]) ?s0"
  proof (cases "list_ex (endsRun parse) earlier")
    case True
    with live show ?thesis by (simp add: forDemuxedItems_append)
  next
    case False
    with live have "\<not> intakeTerminated ?s1" by (simp add: forDemuxedItems_ends)
    with live False one [of ?s1 rest] one [of ?s1 "[]"] show ?thesis
      by (simp add: forDemuxedItems_append)
  qed
  have ended: "intakeTerminated (forDemuxedItems parse pd (earlier @ item # rest) ?s0)"
    using live sentinel by (simp add: forDemuxedItems_ends)
  from assms(2,3) ended same
  have pumped: "pump w parse pd (ReadValue v # later) decoder demuxer s =
      forDemuxedItems parse pd (earlier @ [item]) ?s0"
    by (simp add: pump_ReadValue del: pump.simps)
  moreover from pumped same ended
  have "intakeTerminated (pump w parse pd (ReadValue v # later) decoder demuxer s)"
    by simp
  moreover have "trace (pump w parse pd (ReadValue v # later) decoder demuxer s) =
      trace ?s1 @ [Received (WireItem item), Yield (Termination event_done)] \<and>
    parseCalls (trace (pump w parse pd (ReadValue v # later) decoder demuxer s)) =
      parseCalls (trace s) @
      map (\<lambda>item. (item_data item, item_name item))
        (filter (\<lambda>item. item_type item = ''event'') earlier)"
    if quiet: "\<not> list_ex (endsRun parse) earlier"
  proof -
    from live quiet have l1: "\<not> intakeTerminated ?s1" by (simp add: forDemuxedItems_ends)
    from live quiet have "forDemuxedItems parse pd (earlier @ [item]) ?s0 =
        forDemuxedItems parse pd [item] ?s1"
      by (simp add: forDemuxedItems_append)
    with one [OF l1, of "[]"] pumped
    have p: "pump w parse pd (ReadValue v # later) decoder demuxer s =
        yieldTermination event_done (onReceivedWireMessage (WireItem item) ?s1)"
      by simp
    from l1 have t: "trace (yieldTermination event_done (onReceivedWireMessage (WireItem item) ?s1)) =
        trace ?s1 @ [Received (WireItem item), Yield (Termination event_done)]"
      by (simp add: trace_yieldTermination)
    from forDemuxedItems_parseCalls [OF live quiet, of pd]
    have "parseCalls (trace ?s1) = parseCalls (trace s) @
        map (\<lambda>item. (item_data item, item_name item))
          (filter (\<lambda>item. item_type item = ''event'') earlier)"
      by simp
    with p t show ?thesis by simp
  qed
  ultimately show ?thesis by blast
qed

theorem sentinel_ends_the_run_witness:
  "trace (pump (exampleWorld ''production'' (streamed [])) exampleParse ''openai''
      [ReadValue (bytesOf (''{a}'' @ newline @ ''[DONE]'' @ newline @ ''{b}'')),
       ReadValue (bytesOf ''{c}'')] () () exampleStart) =
   trace exampleStart @
     [Read (ReadValue (bytesOf (''{a}'' @ newline @ ''[DONE]'' @ newline @ ''{b}''))),
      Received (WireItem \<lparr>item_type = ''event'', item_data = ''{a}'', item_name = None\<rparr>),
      ParseCall ''{a}'' None,
      Transmit (JStr ''{a}''),
      Received (WireItem \<lparr>item_type = ''event'', item_data = ''[DONE]'', item_name = None\<rparr>),
      Yield (Termination event_done)]"
proof -
  let ?w = "exampleWorld ''production'' (streamed []) :: (unit, unit) world"
  let ?v = "bytesOf (''{a}'' @ newline @ ''[DONE]'' @ newline @ ''{b}'')"
  let ?a = "\<lparr>item_type = ''event'', item_data = ''{a}'', item_name = None\<rparr>"
  let ?d = "\<lparr>item_type = ''event'', item_data = ''[DONE]'', item_name = None\<rparr>"
  let ?b = "\<lparr>item_type = ''event'', item_data = ''{b}'', item_name = None\<rparr>"
  have live: "\<not> intakeTerminated exampleStart"
    by (simp add: exampleStart_def)
  have decoded: "decode ?w () ?v = (''{a}'' @ newline @ ''[DONE]'' @ newline @ ''{b}'', ())"
    by code_simp
  have demuxed: "demux ?w () (''{a}'' @ newline @ ''[DONE]'' @ newline @ ''{b}'') =
      ([?a] @ ?d # [?b], ())"
    by code_simp
  have quiet: "\<not> list_ex (endsRun exampleParse) [?a]"
    by code_simp
  have event: "item_type ?d = ''event''" and sentinel: "item_data ?d = ''[DONE]''"
    by simp_all
  have loop: "trace (forDemuxedItems exampleParse ''openai'' [?a] (perform [Read (ReadValue ?v)] exampleStart)) =
      trace exampleStart @ [Read (ReadValue ?v), Received (WireItem ?a), ParseCall ''{a}'' None,
        Transmit (JStr ''{a}'')]"
    using live by (simp add: callParse_def exampleParse_def Let_def)
  from sentinel_ends_the_run [OF live decoded demuxed event sentinel,
      where parse = exampleParse and pd = "''openai''" and later = "[ReadValue (bytesOf ''{c}'')]"]
    quiet
  have "trace (pump ?w exampleParse ''openai'' [ReadValue ?v, ReadValue (bytesOf ''{c}'')] () ()
      exampleStart) =
    trace (forDemuxedItems exampleParse ''openai'' [?a] (perform [Read (ReadValue ?v)] exampleStart)) @
    [Received (WireItem ?d), Yield (Termination event_done)]"
    by blast
  also have "\<dots> = (trace exampleStart @ [Read (ReadValue ?v), Received (WireItem ?a),
      ParseCall ''{a}'' None, Transmit (JStr ''{a}'')]) @
    [Received (WireItem ?d), Yield (Termination event_done)]"
    by (simp only: loop)
  also have "\<dots> = trace exampleStart @ [Read (ReadValue ?v), Received (WireItem ?a),
      ParseCall ''{a}'' None, Transmit (JStr ''{a}''),
      Received (WireItem ?d), Yield (Termination event_done)]"
    by simp
  finally show ?thesis .
qed

subsection \<open>C3: what the intake handler is shown\<close>

text \<open>
  C3, as stated, fails: an item behind the one that ends the run is not shown to the
  intake handler. Here one chunk holds the sentinel and then a payload; only the sentinel
  is shown.
\<close>

theorem item_behind_the_sentinel_is_not_surfaced:
  "fst (demux (exampleWorld ''production'' (streamed [])) ()
         (fst (decode (exampleWorld ''production'' (streamed [])) ()
            (bytesOf (''[DONE]'' @ newline @ ''{b}''))))) =
     [\<lparr>item_type = ''event'', item_data = ''[DONE]'', item_name = None\<rparr>,
      \<lparr>item_type = ''event'', item_data = ''{b}'', item_name = None\<rparr>]
   \<and> receivedMessages (trace (chatGenerateContent
        (exampleWorld ''production''
           (streamed [ReadValue (bytesOf (''[DONE]'' @ newline @ ''{b}''))]))
        exampleCtx (exampleInput True False))) =
     [WireItem \<lparr>item_type = ''event'', item_data = ''[DONE]'', item_name = None\<rparr>]"
  by code_simp

text \<open>
  C3, amended. Let the data pump, with the intake not terminated, read a chunk. The items
  of its batch are shown to the intake handler in order and whatever their type, up to
  and including the first item that ends the run (an event that carries the sentinel or
  that the parse function rejects); the items behind it are not shown, and the pump
  returns without another read. A batch in which no item ends the run is shown whole.
\<close>

theorem surfacing_stops_with_the_run:
  assumes "\<not> intakeTerminated s"
    and "decode w decoder v = (chunk, decoder')"
    and "demux w demuxer chunk = (items, demuxer')"
  shows "receivedMessages (trace (forDemuxedItems parse pd items (perform [Read (ReadValue v)] s))) =
           receivedMessages (trace s) @ map WireItem (upToEnd parse items) \<and>
         (list_ex (endsRun parse) items \<longrightarrow>
            pump w parse pd (ReadValue v # later) decoder demuxer s =
              forDemuxedItems parse pd items (perform [Read (ReadValue v)] s)) \<and>
         (\<not> list_ex (endsRun parse) items \<longrightarrow> upToEnd parse items = items)"
proof -
  let ?s0 = "perform [Read (ReadValue v)] s"
  from assms(1) have live: "\<not> intakeTerminated ?s0" by simp
  from forDemuxedItems_received [OF live, of parse pd items]
  have "receivedMessages (trace (forDemuxedItems parse pd items ?s0)) =
      receivedMessages (trace s) @ map WireItem (upToEnd parse items)"
    by simp
  moreover have "pump w parse pd (ReadValue v # later) decoder demuxer s =
      forDemuxedItems parse pd items ?s0"
    if "list_ex (endsRun parse) items"
    using that live assms(2,3)
    by (simp add: pump_ReadValue forDemuxedItems_ends del: pump.simps)
  moreover have "upToEnd parse items = items" if "\<not> list_ex (endsRun parse) items"
  proof -
    from that have kept: "takeWhile (\<lambda>item. \<not> endsRun parse item) items = items"
      by (simp add: list_ex_iff takeWhile_eq_all_conv)
    from that have dropped: "dropWhile (\<lambda>item. \<not> endsRun parse item) items = []"
      by (simp add: list_ex_iff dropWhile_eq_Nil_conv)
    show ?thesis unfolding upToEnd_def kept dropped by simp
  qed
  ultimately show ?thesis by blast
qed

theorem surfacing_stops_with_the_run_witness:
  "receivedMessages (trace (forDemuxedItems exampleParse ''openai''
      [\<lparr>item_type = ''comment'', item_data = ''ping'', item_name = None\<rparr>,
       \<lparr>item_type = ''event'', item_data = ''bad'', item_name = None\<rparr>,
       \<lparr>item_type = ''event'', item_data = ''{b}'', item_name = None\<rparr>]
      (perform [Read (ReadValue (bytesOf ('':ping'' @ newline @ ''bad'' @ newline @ ''{b}'')))]
         exampleStart))) =
     [WireItem \<lparr>item_type = ''comment'', item_data = ''ping'', item_name = None\<rparr>,
      WireItem \<lparr>item_type = ''event'', item_data = ''bad'', item_name = None\<rparr>]"
proof -
  let ?w = "exampleWorld ''production'' (streamed []) :: (unit, unit) world"
  let ?text = "'':ping'' @ newline @ ''bad'' @ newline @ ''{b}''"
  let ?items = "[\<lparr>item_type = ''comment'', item_data = ''ping'', item_name = None\<rparr>,
       \<lparr>item_type = ''event'', item_data = ''bad'', item_name = None\<rparr>,
       \<lparr>item_type = ''event'', item_data = ''{b}'', item_name = None\<rparr>]"
  have live: "\<not> intakeTerminated exampleStart"
    by (simp add: exampleStart_def)
  have decoded: "decode ?w () (bytesOf ?text) = (?text, ())"
    by code_simp
  have demuxed: "demux ?w () ?text = (?items, ())"
    by code_simp
  have shown: "upToEnd exampleParse ?items =
      [\<lparr>item_type = ''comment'', item_data = ''ping'', item_name = None\<rparr>,
       \<lparr>item_type = ''event'', item_data = ''bad'', item_name = None\<rparr>]"
    by code_simp
  have before: "receivedMessages (trace exampleStart) = []"
    by (simp add: exampleStart_def connecting_def debugPrint_def exampleWorld_def
        receivedMessages_def)
  from surfacing_stops_with_the_run [OF live decoded demuxed,
      where parse = exampleParse and pd = "''openai''" and later = "[]"]
  have "receivedMessages (trace (forDemuxedItems exampleParse ''openai'' ?items
      (perform [Read (ReadValue (bytesOf ?text))] exampleStart))) =
    receivedMessages (trace exampleStart) @ map WireItem (upToEnd exampleParse ?items)"
    by blast
  also have "\<dots> = [WireItem \<lparr>item_type = ''comment'', item_data = ''ping'', item_name = None\<rparr>,
      WireItem \<lparr>item_type = ''event'', item_data = ''bad'', item_name = None\<rparr>]"
    by (simp only: shown before) simp
  finally show ?thesis .
qed

subsection \<open>C4: a parse failure in non-streaming mode\<close>




subsection \<open>C5: the error of a failed outbound call on the shared log\<close>

text \<open>
  C5, as stated, fails: an access may describe a user-configured custom endpoint and the
  error of the failed call still be shown on the shared log. Here the access has the
  dialect \<^verbatim>\<open>localai\<close> and a host of the user's own.
\<close>

theorem custom_host_under_another_dialect_is_shown:
  "userConfiguredCustomEndpoint (access localaiInput) \<and>
   outputSequence (trace (chatGenerateContent (exampleWorld ''production'' (Inl connectionReset))
      exampleCtx localaiInput)) =
     [Start,
      Issue dispatch_fetch (fetchMessage ''production'' ''localai'' exampleDispatch connectionReset)
        True]"
  by code_simp

text \<open>
  C5, amended. When the outbound call fails, the output sequence is the start event, the
  diagnostic event if there is one, and the error of the fetch stage; its flag is false
  exactly when the access has the dialect \<^verbatim>\<open>openai\<close> and describes a user-configured
  custom endpoint, and true for every other access, a custom endpoint under another
  dialect included. In every run, the flag of an error of any other stage does not depend
  on the access: it is true for the parse stage and false otherwise.
\<close>

theorem fetch_failure_and_the_shared_log:
  "(built w inp = Inr dispatch \<and> fetched w c inp dispatch = Inl error \<longrightarrow>
      outputSequence (trace (chatGenerateContent w c inp)) =
        Start # debugPrint w inp dispatch @
        [Issue dispatch_fetch (fetchMessage (NODE_ENV w) (prettyDialectOf w inp) dispatch error)
           (\<not> (dialect (access inp) = ''openai'' \<and> userConfiguredCustomEndpoint (access inp)))]) \<and>
   (\<forall>stage message showOnConsole.
      Issue stage message showOnConsole \<in> set (outputSequence (trace (chatGenerateContent w c inp))) \<and>
      stage \<noteq> dispatch_fetch \<longrightarrow> showOnConsole = (stage = dispatch_parse))"
proof -
  have flag: "showOnConsoleForNonCustomServers a =
      (\<not> (dialect a = ''openai'' \<and> userConfiguredCustomEndpoint a))" for a
    by (cases "oaiHost a")
      (simp_all add: showOnConsoleForNonCustomServers_def userConfiguredCustomEndpoint_def
        js_truthy_def)
  have first: "outputSequence (trace (chatGenerateContent w c inp)) =
      Start # debugPrint w inp dispatch @
      [Issue dispatch_fetch (fetchMessage (NODE_ENV w) (prettyDialectOf w inp) dispatch error)
         (\<not> (dialect (access inp) = ''openai'' \<and> userConfiguredCustomEndpoint (access inp)))]"
    if "built w inp = Inr dispatch" "fetched w c inp dispatch = Inl error"
    using that
    by (cases "dialect (access inp) = ''openai'' \<and> userConfiguredCustomEndpoint (access inp)")
      (simp_all add: chatGenerateContent_unfold trace_yieldError connecting_def flag)
  have second: "vis = (stage = dispatch_parse)"
    if member: "Issue stage m vis \<in> set (outputSequence (trace (chatGenerateContent w c inp)))"
      and other: "stage \<noteq> dispatch_fetch" for stage m vis
  proof (cases "built w inp")
    case (Inl failure)
    from trace_prepare_failure [OF Inl, of c] member show ?thesis by auto
  next
    case (Inr d)
    from trace_after_connecting [OF Inr, of c] obtain ext
      where t: "trace (chatGenerateContent w c inp) =
          Yield Start # map Yield (debugPrint w inp d) @
          Fetch (fetchArguments d (reqSignal c) (prettyDialectOf w inp)) # ext"
        and d: "list_all (downstream (access inp)) ext"
      by blast
    from member have "Yield (Issue stage m vis) \<in> set (trace (chatGenerateContent w c inp))"
      by (auto dest: outputSequence_member)
    with t debugPrint_no_issue [of stage m vis w inp d]
    have "Yield (Issue stage m vis) \<in> set ext" by auto
    with d have "downstream (access inp) (Yield (Issue stage m vis))"
      unfolding list_all_iff by blast
    with other show ?thesis by simp
  qed
  from first second show ?thesis by blast
qed

theorem fetch_failure_and_the_shared_log_witness:
  "dialect (access customInput) = ''openai'' \<and>
   userConfiguredCustomEndpoint (access customInput) \<and>
   outputSequence (trace (chatGenerateContent (exampleWorld ''production'' (Inl connectionReset))
      exampleCtx customInput)) =
     [Start,
      Issue dispatch_fetch (fetchMessage ''production'' ''openai'' exampleDispatch connectionReset)
        False]"
proof -
  let ?w = "exampleWorld ''production'' (Inl connectionReset) :: (unit, unit) world"
  have custom: "dialect (access customInput) = ''openai'' \<and>
      userConfiguredCustomEndpoint (access customInput)"
    by (simp add: userConfiguredCustomEndpoint_def customInput_def)
  have prepared: "built ?w customInput = Inr exampleDispatch"
    by (simp add: exampleWorld_def)
  have failed: "fetched ?w exampleCtx customInput exampleDispatch = Inl connectionReset"
    by (simp add: exampleWorld_def)
  have quiet: "debugPrint ?w customInput exampleDispatch = []"
    by (simp add: debugPrint_def exampleWorld_def)
  have pretty: "prettyDialectOf ?w customInput = ''openai''"
    by (simp add: exampleWorld_def customInput_def exampleInput_def)
  have env: "NODE_ENV ?w = ''production''"
    by (simp add: exampleWorld_def)
  from fetch_failure_and_the_shared_log [of ?w customInput exampleDispatch exampleCtx
      connectionReset] prepared failed
  have "outputSequence (trace (chatGenerateContent ?w exampleCtx customInput)) =
      Start # debugPrint ?w customInput exampleDispatch @
      [Issue dispatch_fetch
         (fetchMessage (NODE_ENV ?w) (prettyDialectOf ?w customInput) exampleDispatch connectionReset)
         (\<not> (dialect (access customInput) = ''openai'' \<and>
             userConfiguredCustomEndpoint (access customInput)))]"
    by blast
  then have "outputSequence (trace (chatGenerateContent ?w exampleCtx customInput)) =
      [Start,
       Issue dispatch_fetch (fetchMessage ''production'' ''openai'' exampleDispatch connectionReset)
         (\<not> (dialect (access customInput) = ''openai'' \<and>
             userConfiguredCustomEndpoint (access customInput)))]"
    by (simp only: quiet pretty env append_Nil append_Cons)
  with custom show ?thesis by simp
qed

subsection \<open>C6: a read rejected by the caller's abort\<close>

text \<open>
  C6, as stated, fails: the caller's signal may fire during a chunk read and the run
  still yield an error. Here the signal rejects the first read with the platform's
  default reason, an error named \<^verbatim>\<open>AbortError\<close>; the code does not take it for the
  caller's abort, and the output ends with the error of the read stage.
\<close>

theorem cancelled_read_under_another_name_is_reported:
  "outputSequence (trace (chatGenerateContent
      (exampleWorld ''production'' (streamed [ReadCancelled abortError]))
      exampleCtx (exampleInput True False))) =
     [Start, Issue dispatch_read (streamingMessage ''openai'' abortError) False]"
  by code_simp

text \<open>
  C6, amended. At the head of the data pump the intake has not terminated. When the read
  of the next chunk is rejected, by the caller's signal or otherwise, and what is thrown
  has the name \<^verbatim>\<open>ResponseAborted\<close>, the pump only marks the termination: the flag is set,
  the trace gains the read and nothing else, and the output sequence is unchanged. Every
  other rejection of the read, a rejection by the caller's signal under another name
  included, yields the error of the read stage; so does a rejected read of the whole body
  in non-streaming mode, whatever its name. A run that met a read rejected under the name
  \<^verbatim>\<open>ResponseAborted\<close> has no error event at all in its output.
\<close>

theorem aborted_read_is_silent:
  assumes "\<not> intakeTerminated s"
    and "r = ReadCancelled error \<or> r = ReadThrows error"
  shows "(error_name error = ''ResponseAborted'' \<longrightarrow>
            intakeTerminated (pump w parse pd (r # later) decoder demuxer s) \<and>
            trace (pump w parse pd (r # later) decoder demuxer s) = trace s @ [Read r] \<and>
            outputSequence (trace (pump w parse pd (r # later) decoder demuxer s)) =
              outputSequence (trace s)) \<and>
         (error_name error \<noteq> ''ResponseAborted'' \<longrightarrow>
            intakeTerminated (pump w parse pd (r # later) decoder demuxer s) \<and>
            outputSequence (trace (pump w parse pd (r # later) decoder demuxer s)) =
              outputSequence (trace s) @ [Issue dispatch_read (streamingMessage pd error) False]) \<and>
         (\<not> streaming inp \<and> built w inp = Inr dispatch \<and> fetched w c inp dispatch = Inr resp \<and>
          response_text resp = Inl error \<longrightarrow>
            outputSequence (trace (chatGenerateContent w c inp)) =
              Start # debugPrint w inp dispatch @
              [Issue dispatch_read (readingMessage (prettyDialectOf w inp) error) False]) \<and>
         (clientAborted (trace (chatGenerateContent w c inp)) \<longrightarrow>
            \<not> list_ex isIssue (outputSequence (trace (chatGenerateContent w c inp))))"
proof -
  have caught: "pump w parse pd (r # later) decoder demuxer s =
      (if error_name error = ''ResponseAborted'' then markTermination (perform [Read r] s)
       else yieldError dispatch_read (streamingMessage pd error) False (perform [Read r] s))"
    using assms(2) by (auto simp: pump_ReadThrows pump_ReadCancelled simp del: pump.simps)
  have "\<not> list_ex isIssue (outputSequence (trace (chatGenerateContent w c inp)))"
    if "clientAborted (trace (chatGenerateContent w c inp))"
  proof -
    from that lifecycle_chatGenerateContent [of w c inp]
    have "\<not> list_ex isTerminal (outputSequence (trace (chatGenerateContent w c inp)))"
      by (simp add: lifecycle_def)
    moreover have "isTerminal e" if "isIssue e" for e
      using that by (cases e) simp_all
    ultimately show ?thesis by (auto simp: list_ex_iff)
  qed
  moreover have "outputSequence (trace (chatGenerateContent w c inp)) =
      Start # debugPrint w inp dispatch @
      [Issue dispatch_read (readingMessage (prettyDialectOf w inp) error) False]"
    if "\<not> streaming inp" "built w inp = Inr dispatch" "fetched w c inp dispatch = Inr resp"
      "response_text resp = Inl error"
    using that
    by (simp add: chatGenerateContent_unfold nonStreaming_def trace_yieldError connecting_def)
  moreover have "intakeTerminated (pump w parse pd (r # later) decoder demuxer s)"
    by (simp add: caught markTermination_def del: pump.simps)
  moreover have "trace (pump w parse pd (r # later) decoder demuxer s) = trace s @ [Read r]"
    if "error_name error = ''ResponseAborted''"
    using that by (simp add: caught markTermination_def del: pump.simps)
  moreover have "outputSequence (trace (pump w parse pd (r # later) decoder demuxer s)) =
      outputSequence (trace s)"
    if "error_name error = ''ResponseAborted''"
    using that by (simp add: caught markTermination_def del: pump.simps)
  moreover have "outputSequence (trace (pump w parse pd (r # later) decoder demuxer s)) =
      outputSequence (trace s) @ [Issue dispatch_read (streamingMessage pd error) False]"
    if "error_name error \<noteq> ''ResponseAborted''"
    using that assms(1) by (simp add: caught trace_yieldError del: pump.simps)
  ultimately show ?thesis by blast
qed

theorem aborted_read_is_silent_witness:
  "intakeTerminated (pump (exampleWorld ''production'' (streamed [])) exampleParse ''openai''
      [ReadCancelled responseAborted, ReadValue (bytesOf ''{a}'')] () () exampleStart) \<and>
   outputSequence (trace (pump (exampleWorld ''production'' (streamed [])) exampleParse ''openai''
      [ReadCancelled responseAborted, ReadValue (bytesOf ''{a}'')] () () exampleStart)) = [Start] \<and>
   outputSequence (trace (pump (exampleWorld ''production'' (streamed [])) exampleParse ''openai''
      [ReadThrows connectionReset] () () exampleStart)) =
     [Start, Issue dispatch_read (streamingMessage ''openai'' connectionReset) False]"
proof -
  have live: "\<not> intakeTerminated exampleStart"
    by (simp add: exampleStart_def)
  have out: "outputSequence (trace exampleStart) = [Start]"
    by (simp add: exampleStart_def connecting_def debugPrint_def exampleWorld_def)
  have aborted: "error_name responseAborted = ''ResponseAborted''"
    by (simp add: responseAborted_def)
  have reset: "error_name connectionReset \<noteq> ''ResponseAborted''"
    by (simp add: connectionReset_def)
  have cancelled: "ReadCancelled responseAborted = ReadCancelled responseAborted \<or>
      ReadCancelled responseAborted = ReadThrows responseAborted"
    by simp
  have thrown: "ReadThrows connectionReset = ReadCancelled connectionReset \<or>
      ReadThrows connectionReset = ReadThrows connectionReset"
    by simp
  note silent = aborted_read_is_silent [OF live cancelled,
      where w = "exampleWorld ''production'' (streamed [])" and parse = exampleParse
      and pd = "''openai''" and later = "[ReadValue (bytesOf ''{a}'')]"
      and decoder = "()" and demuxer = "()" and inp = "exampleInput True False"
      and c = exampleCtx and dispatch = exampleDispatch
      and resp = "\<lparr>response_text = Inr [], response_body = None\<rparr>"]
  note loud = aborted_read_is_silent [OF live thrown,
      where w = "exampleWorld ''production'' (streamed [])" and parse = exampleParse
      and pd = "''openai''" and later = "[]"
      and decoder = "()" and demuxer = "()" and inp = "exampleInput True False"
      and c = exampleCtx and dispatch = exampleDispatch
      and resp = "\<lparr>response_text = Inr [], response_body = None\<rparr>"]
  from silent aborted have
    "intakeTerminated (pump (exampleWorld ''production'' (streamed [])) exampleParse ''openai''
       [ReadCancelled responseAborted, ReadValue (bytesOf ''{a}'')] () () exampleStart)"
    "outputSequence (trace (pump (exampleWorld ''production'' (streamed [])) exampleParse ''openai''
       [ReadCancelled responseAborted, ReadValue (bytesOf ''{a}'')] () () exampleStart)) =
     outputSequence (trace exampleStart)"
    by blast+
  moreover from loud reset have
    "outputSequence (trace (pump (exampleWorld ''production'' (streamed [])) exampleParse ''openai''
       [ReadThrows connectionReset] () () exampleStart)) =
     outputSequence (trace exampleStart) @
     [Issue dispatch_read (streamingMessage ''openai'' connectionReset) False]"
    by blast
  ultimately show ?thesis using out by simp
qed

subsection \<open>C7: the stream closes\<close>



subsection \<open>C8: the diagnostic event\<close>

text \<open>
  C8. A run yields the diagnostic event only when the debug flag of the connection options
  is set and \<^verbatim>\<open>NODE_ENV\<close> is \<^verbatim>\<open>development\<close>. When the dispatch has been built, the trace
  is the start event, the diagnostic event if there is one, the outbound call, and then
  effects among which there is no diagnostic event: the event comes before the call. When
  \<^verbatim>\<open>NODE_ENV\<close> is not \<^verbatim>\<open>development\<close>, two invocations that differ only in their connection
  options run alike, so their output sequences are the same.
\<close>

theorem diagnostic_event_only_in_development:
  "(list_ex isDebugYield (trace (chatGenerateContent w c inp)) \<longrightarrow>
      debugRequested inp \<and> NODE_ENV w = ''development'') \<and>
   (built w inp = Inr dispatch \<longrightarrow>
      (\<exists>ext. trace (chatGenerateContent w c inp) =
         Yield Start # map Yield (debugPrint w inp dispatch) @
         Fetch (fetchArguments dispatch (reqSignal c) (prettyDialectOf w inp)) # ext \<and>
         \<not> list_ex isDebugYield ext)) \<and>
   (NODE_ENV w \<noteq> ''development'' \<longrightarrow>
      chatGenerateContent w c (inp\<lparr>connectionOptions := options\<rparr>) =
      chatGenerateContent w c (inp\<lparr>connectionOptions := options'\<rparr>))"
proof -
  have shape: "\<exists>ext. trace (chatGenerateContent w c inp) =
         Yield Start # map Yield (debugPrint w inp d) @
         Fetch (fetchArguments d (reqSignal c) (prettyDialectOf w inp)) # ext \<and>
         \<not> list_ex isDebugYield ext"
    if "built w inp = Inr d" for d
    using trace_after_connecting [OF that, of c] downstream_no_debug by blast
  have only: "debugRequested inp \<and> NODE_ENV w = ''development''"
    if yielded: "list_ex isDebugYield (trace (chatGenerateContent w c inp))"
  proof (cases "built w inp")
    case (Inl failure)
    from trace_prepare_failure [OF Inl, of c] yielded show ?thesis by simp
  next
    case (Inr d)
    from shape [OF Inr] obtain ext
      where t: "trace (chatGenerateContent w c inp) =
          Yield Start # map Yield (debugPrint w inp d) @
          Fetch (fetchArguments d (reqSignal c) (prettyDialectOf w inp)) # ext"
        and n: "\<not> list_ex isDebugYield ext"
      by blast
    from yielded t n have "list_ex isDebugYield (map Yield (debugPrint w inp d))"
      by (auto simp: list_ex_iff)
    then show ?thesis by (rule debugPrint_only_when_requested)
  qed
  have alike: "chatGenerateContent w c (inp\<lparr>connectionOptions := options\<rparr>) =
      chatGenerateContent w c (inp\<lparr>connectionOptions := options'\<rparr>)"
    if "NODE_ENV w \<noteq> ''development''"
    using that by (simp add: chatGenerateContent_def Let_def split: sum.split)
  from shape only alike show ?thesis by blast
qed

theorem diagnostic_event_only_in_development_witness:
  "list_ex isDebugYield (trace (chatGenerateContent (exampleWorld ''development'' (streamed []))
      exampleCtx (exampleInput True True))) \<and>
   debugRequested (exampleInput True True) \<and>
   NODE_ENV (exampleWorld ''development'' (streamed []) :: (unit, unit) world) = ''development'' \<and>
   chatGenerateContent (exampleWorld ''production'' (streamed [])) exampleCtx
     ((exampleInput True True)\<lparr>connectionOptions := Some \<lparr>debugDispatchRequestbody = Some True\<rparr>\<rparr>) =
   chatGenerateContent (exampleWorld ''production'' (streamed [])) exampleCtx
     ((exampleInput True True)\<lparr>connectionOptions := None\<rparr>)"
proof -
  let ?dev = "exampleWorld ''development'' (streamed []) :: (unit, unit) world"
  let ?prod = "exampleWorld ''production'' (streamed []) :: (unit, unit) world"
  have yielded: "list_ex isDebugYield (trace (chatGenerateContent ?dev exampleCtx (exampleInput True True)))"
    by code_simp
  have production: "NODE_ENV ?prod \<noteq> ''development''"
    by (simp add: exampleWorld_def)
  from diagnostic_event_only_in_development [of ?dev exampleCtx "exampleInput True True"] yielded
  have "debugRequested (exampleInput True True) \<and> NODE_ENV ?dev = ''development''"
    by blast
  moreover from diagnostic_event_only_in_development [of ?prod exampleCtx "exampleInput True True"
      exampleDispatch "Some \<lparr>debugDispatchRequestbody = Some True\<rparr>" None] production
  have "chatGenerateContent ?prod exampleCtx
     ((exampleInput True True)\<lparr>connectionOptions := Some \<lparr>debugDispatchRequestbody = Some True\<rparr>\<rparr>) =
   chatGenerateContent ?prod exampleCtx ((exampleInput True True)\<lparr>connectionOptions := None\<rparr>)"
    by blast
  ultimately show ?thesis using yielded by blast
qed

subsection \<open>C9: the method of the outbound call\<close>

text \<open>
  C9. When the dispatch has been built, the run calls the network once, with the method
  \<^verbatim>\<open>POST\<close> and with the url, the headers and the body of the request of the dispatch. The
  method field of that request is never read: a dispatch builder that writes any other
  method into it leaves the whole run as it is.
\<close>

theorem outbound_call_is_a_POST:
  "(built w inp = Inr dispatch \<longrightarrow>
      fetchCalls (trace (chatGenerateContent w c inp)) =
        [\<lparr>fetch_url = url (request dispatch),
          fetch_method = ''POST'',
          fetch_headers = headers (request dispatch),
          fetch_body = body (request dispatch),
          fetch_signal = reqSignal c,
          fetch_name = ''Aix.'' @ prettyDialectOf w inp,
          fetch_throwWithoutName = True\<rparr>]) \<and>
   chatGenerateContent (withRequestMethod m w) c inp = chatGenerateContent w c inp"
proof -
  have called: "fetchCalls (trace (chatGenerateContent w c inp)) =
      [fetchArguments dispatch (reqSignal c) (prettyDialectOf w inp)]"
    if "built w inp = Inr dispatch"
    using trace_after_connecting [OF that, of c] downstream_no_fetch by fastforce
  have codec: "pump (withRequestMethod m w) parse pd reads decoder demuxer s =
      pump w parse pd reads decoder demuxer s" for parse pd reads decoder demuxer s
    by (rule pump_same_codec) (simp_all add: withRequestMethod_def)
  have fields: "NODE_ENV (withRequestMethod m w) = NODE_ENV w"
    "serverCapitalizeFirstLetter (withRequestMethod m w) = serverCapitalizeFirstLetter w"
    "JSON_stringify (withRequestMethod m w) = JSON_stringify w"
    "fetchResponseOrTRPCThrow (withRequestMethod m w) = fetchResponseOrTRPCThrow w"
    "newTextDecoder (withRequestMethod m w) = newTextDecoder w"
    "createStreamDemuxer (withRequestMethod m w) = createStreamDemuxer w"
    by (simp_all add: withRequestMethod_def)
  have "chatGenerateContent (withRequestMethod m w) c inp = chatGenerateContent w c inp"
  proof (cases "built w inp")
    case (Inl failure)
    then have "built (withRequestMethod m w) inp = Inl failure"
      by (simp add: withRequestMethod_def)
    with Inl show ?thesis
      by (simp add: chatGenerateContent_unfold fields)
  next
    case (Inr d)
    let ?d = "d\<lparr>request := (request d)\<lparr>request_method := m\<rparr>\<rparr>"
    from Inr have b: "built (withRequestMethod m w) inp = Inr ?d"
      by (simp add: withRequestMethod_def)
    have arguments: "fetchArguments ?d signal pd = fetchArguments d signal pd" for signal pd
      by (simp add: fetchArguments_def)
    have message: "fetchMessage env pd ?d failure = fetchMessage env pd d failure"
      for env pd failure
      by (simp add: fetchMessage_def)
    have whole_body: "nonStreaming ?d pd resp s = nonStreaming d pd resp s" for pd resp s
      by (simp add: nonStreaming_def Let_def split: sum.split)
    have connected: "connecting (withRequestMethod m w) c inp ?d = connecting w c inp d"
      by (simp add: connecting_def debugPrint_def arguments fields)
    show ?thesis
      by (simp add: chatGenerateContent_unfold b Inr fields arguments message whole_body
          connected codec del: pump.simps split: sum.split)
  qed
  with called show ?thesis by (simp add: fetchArguments_def)
qed

theorem outbound_call_is_a_POST_witness:
  "request_method (request exampleDispatch) = ''GET'' \<and>
   fetchCalls (trace (chatGenerateContent (exampleWorld ''production'' (streamed []))
      exampleCtx (exampleInput True False))) =
     [\<lparr>fetch_url = ''https://api.example.com/v1/chat'',
       fetch_method = ''POST'',
       fetch_headers = [(''Content-Type'', ''application/json'')],
       fetch_body = JObj [(''stream'', JBool True)],
       fetch_signal = AbortSignal 0,
       fetch_name = ''Aix.openai'',
       fetch_throwWithoutName = True\<rparr>]"
proof -
  let ?w = "exampleWorld ''production'' (streamed []) :: (unit, unit) world"
  have prepared: "built ?w (exampleInput True False) = Inr exampleDispatch"
    by (simp add: exampleWorld_def)
  from outbound_call_is_a_POST [of ?w "exampleInput True False" exampleDispatch exampleCtx]
    prepared
  have "fetchCalls (trace (chatGenerateContent ?w exampleCtx (exampleInput True False))) =
      [\<lparr>fetch_url = url (request exampleDispatch),
        fetch_method = ''POST'',
        fetch_headers = headers (request exampleDispatch),
        fetch_body = body (request exampleDispatch),
        fetch_signal = reqSignal exampleCtx,
        fetch_name = ''Aix.'' @ prettyDialectOf ?w (exampleInput True False),
        fetch_throwWithoutName = True\<rparr>]"
    by blast
  then show ?thesis
    by (simp add: exampleDispatch_def exampleCtx_def exampleWorld_def exampleInput_def)
qed

subsection \<open>C10: a response without a body\<close>

text \<open>
  C10, as stated, fails: with the debug flag set in a development posture the output of
  such a run has three events, not two.
\<close>

theorem null_body_with_the_diagnostic_event:
  "response_body \<lparr>response_text = Inr [], response_body = None\<rparr> = None \<and>
   outputSequence (trace (chatGenerateContent
      (exampleWorld ''development'' (Inr \<lparr>response_text = Inr [], response_body = None\<rparr>))
      exampleCtx (exampleInput True True))) =
     [Start, DebugClientPrint ''{}'', Termination dispatch_close] \<and>
   [Start, DebugClientPrint ''{}'', Termination dispatch_close] \<noteq>
     [Start, Termination dispatch_close]"
  by code_simp

text \<open>
  C10, amended. In streaming mode, when the outbound call succeeds and the response has no
  body, the code reads an empty stream in its place: the first read reports \<^verbatim>\<open>done\<close>. The
  output sequence is the start event, the diagnostic event if there is one, and the
  termination \<open>dispatch-close\<close>; it holds no error event. Without the diagnostic event it is
  the start event and the termination.
\<close>

theorem null_body_reads_as_a_closed_stream:
  assumes "streaming inp"
    and "built w inp = Inr dispatch"
    and "fetched w c inp dispatch = Inr resp"
    and "response_body resp = None"
  shows "outputSequence (trace (chatGenerateContent w c inp)) =
           Start # debugPrint w inp dispatch @ [Termination dispatch_close] \<and>
         \<not> list_ex isIssue (outputSequence (trace (chatGenerateContent w c inp))) \<and>
         intakeTerminated (chatGenerateContent w c inp) \<and>
         (\<not> (debugRequested inp \<and> NODE_ENV w = ''development'') \<longrightarrow>
            outputSequence (trace (chatGenerateContent w c inp)) =
              [Start, Termination dispatch_close])"
  using assms
  by (simp add: chatGenerateContent_unfold createEmptyReadableStream_def
      trace_yieldTermination connecting_def debugPrint_def)

theorem null_body_reads_as_a_closed_stream_witness:
  "outputSequence (trace (chatGenerateContent
      (exampleWorld ''production'' (Inr \<lparr>response_text = Inr [], response_body = None\<rparr>))
      exampleCtx (exampleInput True False))) =
     [Start, Termination dispatch_close]"
proof -
  let ?resp = "\<lparr>response_text = Inr [], response_body = None\<rparr>"
  let ?w = "exampleWorld ''production'' (Inr ?resp) :: (unit, unit) world"
  let ?inp = "exampleInput True False"
  have stream: "streaming ?inp"
    by (simp add: exampleInput_def)
  have prepared: "built ?w ?inp = Inr exampleDispatch"
    by (simp add: exampleWorld_def)
  have connected: "fetched ?w exampleCtx ?inp exampleDispatch = Inr ?resp"
    by (simp add: exampleWorld_def)
  have no_body: "response_body ?resp = None"
    by simp
  have production: "\<not> (debugRequested ?inp \<and> NODE_ENV ?w = ''development'')"
    by (simp add: exampleWorld_def)
  from null_body_reads_as_a_closed_stream [OF stream prepared connected no_body] production
  show ?thesis by blast
qed


end
